theory Spec2Isabelle
  imports Complex_Main "HOL-Library.Sublist"
begin

section \<open>Values, exceptions and the environment\<close>

text \<open>
  The values that flow through the SDK untyped: what the user function returns, what the
  status endpoint sends, the arguments of a call. They are the JSON-like values of Python,
  with \<open>VTrace\<close> for the \<^verbatim>\<open>TraceContext\<close> object of the running invocation. A finite
  float is represented by its exact value. A string is a list of characters, each one a
  code point below 256.
\<close>

datatype pyval =
    VNone
  | VBool bool
  | VInt int
  | VFloat rat
  | VStr string
  | VList "pyval list"
  | VDict "(string \<times> pyval) list"
  | VTrace

text \<open>
  The characters of a prompt, on which \<^verbatim>\<open>compute_fingerprint\<close> works character by
  character: the code points below 256, and U+0130 (LATIN CAPITAL LETTER I WITH DOT ABOVE)
  with U+0307 (COMBINING DOT ABOVE). U+0130 is the one code point whose lower case is more
  than one character, \<^verbatim>\<open>i\<close> followed by U+0307.
\<close>

datatype uchar = L1 char | U0130 | U0307

type_synonym ustring = "uchar list"

text \<open>
  exceptions.py. \<^verbatim>\<open>AgentBlockedError(agent_id, reason)\<close> keeps
  \<^verbatim>\<open>reason or "Agent is blocked"\<close>; \<^verbatim>\<open>PolicyViolationError(agent_id, policy_id,
  policy_type, message)\<close>. \<open>Exc\<close> is any other exception, by the name of its class and
  its \<^verbatim>\<open>str\<close>.
\<close>

datatype exn =
    AgentBlockedError string pyval
  | PolicyViolationError string pyval pyval string
  | Exc string string

text \<open>Truthiness, as \<^verbatim>\<open>if x:\<close> and \<^verbatim>\<open>x or y\<close> test it.\<close>

fun py_truthy :: "pyval \<Rightarrow> bool" where
  "py_truthy VNone = False"
| "py_truthy (VBool b) = b"
| "py_truthy (VInt n) = (n \<noteq> 0)"
| "py_truthy (VFloat r) = (r \<noteq> 0)"
| "py_truthy (VStr s) = (s \<noteq> [])"
| "py_truthy (VList xs) = (xs \<noteq> [])"
| "py_truthy (VDict kvs) = (kvs \<noteq> [])"
| "py_truthy VTrace = True"

text \<open>
  The number a value stands for in arithmetic and in comparisons with a number
  (\<^verbatim>\<open>bool\<close> is a subclass of \<^verbatim>\<open>int\<close>); \<open>None\<close> for a value with which these
  operations raise \<^verbatim>\<open>TypeError\<close>.
\<close>

fun py_num :: "pyval \<Rightarrow> rat option" where
  "py_num (VBool b) = Some (if b then 1 else 0)"
| "py_num (VInt n) = Some (of_int n)"
| "py_num (VFloat r) = Some r"
| "py_num _ = None"

text \<open>\<^verbatim>\<open>d.get(key, default)\<close>: only a dict has the method.\<close>

definition dict_get :: "(string \<times> pyval) list \<Rightarrow> string \<Rightarrow> pyval \<Rightarrow> pyval" where
  "dict_get kvs key dflt = (case map_of kvs key of Some v \<Rightarrow> v | None \<Rightarrow> dflt)"

definition py_get :: "pyval \<Rightarrow> string \<Rightarrow> pyval \<Rightarrow> exn + pyval" where
  "py_get v key dflt =
     (case v of
        VDict kvs \<Rightarrow> Inr (dict_get kvs key dflt)
      | _ \<Rightarrow> Inl (Exc ''AttributeError'' ''object has no attribute get''))"

text \<open>What one \<^verbatim>\<open>httpx.get\<close> of the status endpoint does: it raises, or it returns a
  response with a status code and a body, which \<^verbatim>\<open>response.json()\<close> parses (\<open>None\<close>
  for a body that is not JSON).\<close>

datatype http_get = GetRaises | GetResponse int "pyval option"

text \<open>
  The environment of the process, which the SDK only reads: the clocks (the \<open>k\<close>-th
  reading of \<^verbatim>\<open>time.monotonic()\<close>, in seconds, and of \<^verbatim>\<open>datetime.now(timezone.utc)\<close>,
  in microseconds since the epoch), the \<open>k\<close>-th \<^verbatim>\<open>uuid.uuid4()\<close>, what the \<open>k\<close>-th GET
  of the status endpoint meets, SHA-256 of the UTF-8 encoding of a string as a hex digest,
  \<^verbatim>\<open>str(v)\<close> and \<^verbatim>\<open>format(x, ".4f")\<close>, and the variable \<^verbatim>\<open>AWS_DEFAULT_REGION\<close>.
\<close>

record env =
  monotonic :: "nat \<Rightarrow> rat"
  utcnow :: "nat \<Rightarrow> int"
  uuid4 :: "nat \<Rightarrow> string"
  httpx_get :: "nat \<Rightarrow> string \<Rightarrow> http_get"
  sha256_hex :: "ustring \<Rightarrow> string"
  py_str :: "pyval \<Rightarrow> string"
  format_4f :: "rat \<Rightarrow> string"
  aws_default_region :: "string option"

text \<open>\<^verbatim>\<open>type(e).__name__\<close> and \<^verbatim>\<open>str(e)\<close> of an exception.\<close>

definition apostrophe :: string where
  "apostrophe = [CHR 0x27]"

fun exn_name :: "exn \<Rightarrow> string" where
  "exn_name (AgentBlockedError _ _) = ''AgentBlockedError''"
| "exn_name (PolicyViolationError _ _ _ _) = ''PolicyViolationError''"
| "exn_name (Exc n _) = n"

fun exn_str :: "env \<Rightarrow> exn \<Rightarrow> string" where
  "exn_str e (AgentBlockedError agent reason) =
     ''Agent '' @ apostrophe @ agent @ apostrophe @ '' is blocked: '' @ py_str e reason
       @ ''. Unblock via the InvokeLens dashboard.''"
| "exn_str e (PolicyViolationError agent pid ptype msg) =
     ''Policy violation for agent '' @ apostrophe @ agent @ apostrophe @ '': [''
       @ py_str e ptype @ ''] '' @ msg
       @ '' (policy_id='' @ py_str e pid @ '')''"
| "exn_str e (Exc _ msg) = msg"

section \<open>The data model\<close>

text \<open>
  tracing.py, \<^verbatim>\<open>class Span\<close>. The two timestamps are ISO-8601 texts of instants and are
  represented by the instants. Pydantic validates the fields when a span is constructed
  and not when one is assigned, so the fields that the wrapper assigns from an untyped
  response (\<open>model_id\<close>, the token counts) hold values of any type.
\<close>

record span =
  span_id :: string
  parent_span_id :: "string option"
  span_type :: string
  name :: string
  started_at :: int
  ended_at :: "int option"
  duration_ms :: int
  span_input :: "string option"
  span_output :: "string option"
  status :: string
  error :: "string option"
  model_id :: pyval
  input_tokens :: pyval
  output_tokens :: pyval
  estimated_cost_usd :: rat

text \<open>
  tracing.py, \<^verbatim>\<open>class TraceContext\<close>. Spans are objects, shared between the list
  \<^verbatim>\<open>_spans\<close> and whoever holds the result of \<^verbatim>\<open>start_span\<close>: \<open>objs\<close> is the store of
  the span objects by reference, \<open>next_ref\<close> the next unused reference, \<open>spans\<close> the
  references in \<^verbatim>\<open>_spans\<close>, \<open>active_stack\<close> the span ids in \<^verbatim>\<open>_active_stack\<close>.
\<close>

record trace_context =
  objs :: "nat \<Rightarrow> span"
  next_ref :: nat
  spans :: "nat list"
  active_stack :: "string list"
  start_mono :: rat

text \<open>status.py, \<^verbatim>\<open>class _CacheEntry\<close>.\<close>

record cache_entry =
  ce_status :: pyval
  ce_blocked_reason :: pyval
  ce_policies :: pyval
  ce_expires_at :: rat

text \<open>fingerprint.py: the dict that \<^verbatim>\<open>compute_fingerprint\<close> returns.\<close>

record fingerprint =
  prompt_hash :: string
  structure_hash :: string
  char_count :: nat
  word_count :: nat
  line_count :: nat
  template_vars :: "ustring list"

text \<open>schema.py, \<^verbatim>\<open>class TelemetryEvent\<close>, after validation.\<close>

record telemetry_event =
  ev_event_id :: string
  ev_event_type :: string
  ev_timestamp :: int
  ev_api_key :: string
  ev_agent_id :: string
  ev_agent_name :: "string option"
  ev_invocation_id :: string
  ev_model_id :: string
  ev_region :: string
  ev_started_at :: int
  ev_ended_at :: int
  ev_duration_ms :: int
  ev_input_tokens :: int
  ev_output_tokens :: int
  ev_estimated_cost_usd :: rat
  ev_status :: string
  ev_error_message :: "string option"
  ev_error_type :: "string option"
  ev_tools_called :: "string list"
  ev_prompt_summary :: "string option"
  ev_prompt_fingerprint :: "fingerprint option"
  ev_spans :: "span list"
  ev_sdk_version :: string

text \<open>
  The state of the process that the SDK changes: how many readings it has taken of each
  clock and of the uuid generator, the GET requests made so far (by agent id), the
  \<^verbatim>\<open>_cache\<close> of the client's status checker, the \<^verbatim>\<open>_counts\<close> of the process-wide
  \<^verbatim>\<open>_rate_tracker\<close>, the \<^verbatim>\<open>_custom_pricing\<close> of cost.py, the queue of the transport,
  and how many times user functions have been invoked.
\<close>

record world =
  mono_reads :: nat
  wall_reads :: nat
  uuid_draws :: nat
  http_gets :: "string list"
  status_cache :: "string \<Rightarrow> cache_entry option"
  rate_counts :: "string \<Rightarrow> rat list option"
  custom_pricing :: "(string \<times> rat \<times> rat) list"
  event_queue :: "telemetry_event list"
  user_calls :: nat

definition read_monotonic :: "env \<Rightarrow> world \<Rightarrow> rat \<times> world" where
  "read_monotonic e w = (monotonic e (mono_reads w), w\<lparr>mono_reads := mono_reads w + 1\<rparr>)"

definition read_utcnow :: "env \<Rightarrow> world \<Rightarrow> int \<times> world" where
  "read_utcnow e w = (utcnow e (wall_reads w), w\<lparr>wall_reads := wall_reads w + 1\<rparr>)"

definition draw_uuid4 :: "env \<Rightarrow> world \<Rightarrow> string \<times> world" where
  "draw_uuid4 e w = (uuid4 e (uuid_draws w), w\<lparr>uuid_draws := uuid_draws w + 1\<rparr>)"

section \<open>Python helpers\<close>

text \<open>
  Python's slice \<^verbatim>\<open>xs[:k]\<close>: a negative stop counts from the end of the sequence, and a
  stop beyond either end is clamped.
\<close>

definition py_slice_to :: "int \<Rightarrow> 'a list \<Rightarrow> 'a list" where
  "py_slice_to k xs =
     (if 0 \<le> k then take (nat k) xs else take (nat (int (length xs) + k)) xs)"

section \<open>tracing.py: truncation of span input and output\<close>

definition MAX_SPANS_PER_TRACE :: nat where
  "MAX_SPANS_PER_TRACE = 100"

definition MAX_IO_LENGTH :: nat where
  "MAX_IO_LENGTH = 2000"

text \<open>
  \<^verbatim>\<open>_truncate(value, max_len)\<close>: \<^verbatim>\<open>None\<close> stays \<^verbatim>\<open>None\<close>, a value of at most
  \<^verbatim>\<open>max_len\<close> characters is returned as it is, a longer one is cut to its first
  \<^verbatim>\<open>max_len - 14\<close> characters followed by the marker.
\<close>

definition truncate_max :: "string option \<Rightarrow> nat \<Rightarrow> string option" where
  "truncate_max v max_len =
     (case v of
        None \<Rightarrow> None
      | Some s \<Rightarrow>
          if length s \<le> max_len then Some s
          else Some (py_slice_to (int max_len - 14) s @ ''...[truncated]''))"

text \<open>\<^verbatim>\<open>_truncate(value)\<close> with the default \<^verbatim>\<open>max_len = MAX_IO_LENGTH\<close>.\<close>

definition truncate_text :: "string option \<Rightarrow> string option" where
  "truncate_text v = truncate_max v MAX_IO_LENGTH"

section \<open>Python strings\<close>

text \<open>
  \<^verbatim>\<open>str.isspace\<close> holds of the code points 9 to 13, 28 to 32, 133 and 160, and of
  neither U+0130 nor U+0307.
\<close>

definition latin_space :: "char \<Rightarrow> bool" where
  "latin_space c =
     (let n = (of_char c :: nat)
      in (9 \<le> n \<and> n \<le> 13) \<or> (28 \<le> n \<and> n \<le> 32) \<or> n = 133 \<or> n = 160)"

fun is_space :: "uchar \<Rightarrow> bool" where
  "is_space (L1 c) = latin_space c"
| "is_space U0130 = False"
| "is_space U0307 = False"

text \<open>\<^verbatim>\<open>s.strip()\<close>.\<close>

definition py_strip :: "ustring \<Rightarrow> ustring" where
  "py_strip s = rev (dropWhile is_space (rev (dropWhile is_space s)))"

text \<open>
  \<^verbatim>\<open>s.lower()\<close>. Below 256 the upper-case letters are \<^verbatim>\<open>A\<close> to \<^verbatim>\<open>Z\<close> and the code
  points 192 to 222 without the multiplication sign 215; each has its lower-case letter 32
  further, which is the character with the bit of value 32 set. The lower case of U+0130
  is the two characters \<^verbatim>\<open>i\<close> and U+0307, and U+0307 has no case.
\<close>

definition latin_lower :: "char \<Rightarrow> char" where
  "latin_lower c =
     (let n = (of_char c :: nat)
      in if (65 \<le> n \<and> n \<le> 90) \<or> (192 \<le> n \<and> n \<le> 222 \<and> n \<noteq> 215)
         then (case c of Char b0 b1 b2 b3 b4 b5 b6 b7 \<Rightarrow> Char b0 b1 b2 b3 b4 True b6 b7)
         else c)"

fun lower_char :: "uchar \<Rightarrow> ustring" where
  "lower_char (L1 c) = [L1 (latin_lower c)]"
| "lower_char U0130 = [L1 (CHR ''i''), U0307]"
| "lower_char U0307 = [U0307]"

definition py_lower :: "ustring \<Rightarrow> ustring" where
  "py_lower s = concat (map lower_char s)"

text \<open>\<^verbatim>\<open>s.split()\<close>: the maximal runs of characters that are not whitespace.\<close>

fun split_from :: "ustring \<Rightarrow> ustring \<Rightarrow> ustring list" where
  "split_from cur [] = (if cur = [] then [] else [cur])"
| "split_from cur (c # cs) =
     (if is_space c then (if cur = [] then split_from [] cs else cur # split_from [] cs)
      else split_from (cur @ [c]) cs)"

definition py_split :: "ustring \<Rightarrow> ustring list" where
  "py_split s = split_from [] s"

text \<open>\<^verbatim>\<open>s.count("\n")\<close>.\<close>

definition count_newlines :: "ustring \<Rightarrow> nat" where
  "count_newlines s = length (filter (\<lambda>c. c = L1 (CHR 0x0A)) s)"

text \<open>
  The order of strings, by code points, and \<^verbatim>\<open>sorted(set(xs))\<close> for a list of strings.
\<close>

fun code_point :: "uchar \<Rightarrow> nat" where
  "code_point (L1 c) = of_char c"
| "code_point U0130 = 304"
| "code_point U0307 = 775"

fun ustr_lt :: "ustring \<Rightarrow> ustring \<Rightarrow> bool" where
  "ustr_lt [] [] = False"
| "ustr_lt [] (y # ys) = True"
| "ustr_lt (x # xs) [] = False"
| "ustr_lt (x # xs) (y # ys) =
     (if x = y then ustr_lt xs ys else code_point x < code_point y)"

fun insert_sorted :: "ustring \<Rightarrow> ustring list \<Rightarrow> ustring list" where
  "insert_sorted s [] = [s]"
| "insert_sorted s (t # ts) =
     (if s = t then t # ts
      else if ustr_lt s t then s # t # ts
      else t # insert_sorted s ts)"

definition sorted_set :: "ustring list \<Rightarrow> ustring list" where
  "sorted_set xs = foldr insert_sorted xs []"

text \<open>The same order on the strings of code points below 256.\<close>

fun str_lt :: "string \<Rightarrow> string \<Rightarrow> bool" where
  "str_lt [] [] = False"
| "str_lt [] (y # ys) = True"
| "str_lt (x # xs) [] = False"
| "str_lt (x # xs) (y # ys) =
     (if x = y then str_lt xs ys else (of_char x :: nat) < of_char y)"

section \<open>Operations on untyped values\<close>

text \<open>
  \<^verbatim>\<open>for x in v\<close>: a list gives its items, a dict its keys, a string its characters; any
  other value is not iterable.
\<close>

definition py_iter :: "pyval \<Rightarrow> exn + pyval list" where
  "py_iter v =
     (case v of
        VList xs \<Rightarrow> Inr xs
      | VDict kvs \<Rightarrow> Inr (map (\<lambda>kv. VStr (fst kv)) kvs)
      | VStr s \<Rightarrow> Inr (map (\<lambda>c. VStr [c]) s)
      | _ \<Rightarrow> Inl (Exc ''TypeError'' ''object is not iterable''))"

text \<open>\<^verbatim>\<open>len(v)\<close>.\<close>

definition py_len :: "pyval \<Rightarrow> exn + nat" where
  "py_len v =
     (case v of
        VList xs \<Rightarrow> Inr (length xs)
      | VDict kvs \<Rightarrow> Inr (length kvs)
      | VStr s \<Rightarrow> Inr (length s)
      | _ \<Rightarrow> Inl (Exc ''TypeError'' ''object has no len()''))"

text \<open>
  \<^verbatim>\<open>v[i]\<close> for an index \<open>i\<close> below \<^verbatim>\<open>len(v)\<close>. The keys of a dict that was parsed from
  JSON are strings, so the integer is not among them.
\<close>

definition py_index :: "pyval \<Rightarrow> nat \<Rightarrow> exn + pyval" where
  "py_index v i =
     (case v of
        VList xs \<Rightarrow>
          if i < length xs then Inr (xs ! i)
          else Inl (Exc ''IndexError'' ''list index out of range'')
      | VStr s \<Rightarrow>
          if i < length s then Inr (VStr [s ! i])
          else Inl (Exc ''IndexError'' ''string index out of range'')
      | VDict kvs \<Rightarrow> Inl (Exc ''KeyError'' ''key'')
      | _ \<Rightarrow> Inl (Exc ''TypeError'' ''object is not subscriptable''))"

text \<open>\<^verbatim>\<open>v * n\<close> for an integer \<open>n\<close>: a number is multiplied, a string or a list repeated.\<close>

definition py_mul :: "pyval \<Rightarrow> nat \<Rightarrow> exn + pyval" where
  "py_mul v n =
     (case v of
        VBool b \<Rightarrow> Inr (VInt ((if b then 1 else 0) * int n))
      | VInt k \<Rightarrow> Inr (VInt (k * int n))
      | VFloat r \<Rightarrow> Inr (VFloat (r * of_nat n))
      | VStr s \<Rightarrow> Inr (VStr (concat (replicate n s)))
      | VList xs \<Rightarrow> Inr (VList (concat (replicate n xs)))
      | _ \<Rightarrow> Inl (Exc ''TypeError'' ''unsupported operand type(s) for *''))"

text \<open>
  Equality of values, \<^verbatim>\<open>a == b\<close>: numbers are equal by their values whatever their
  types, a dict does not depend on the order of its keys. Two values are equal when their
  normal forms are the same.
\<close>

fun insert_key :: "string \<times> pyval \<Rightarrow> (string \<times> pyval) list \<Rightarrow> (string \<times> pyval) list" where
  "insert_key kv [] = [kv]"
| "insert_key kv (kv' # rest) =
     (if fst kv = fst kv' then kv' # rest
      else if str_lt (fst kv) (fst kv') then kv # kv' # rest
      else kv' # insert_key kv rest)"

fun py_norm :: "pyval \<Rightarrow> pyval" where
  "py_norm VNone = VNone"
| "py_norm (VBool b) = VInt (if b then 1 else 0)"
| "py_norm (VInt n) = VInt n"
| "py_norm (VFloat r) = (if r = of_int \<lfloor>r\<rfloor> then VInt \<lfloor>r\<rfloor> else VFloat r)"
| "py_norm (VStr s) = VStr s"
| "py_norm (VList xs) = VList (map py_norm xs)"
| "py_norm (VDict kvs) = VDict (foldr insert_key (map (\<lambda>kv. (fst kv, py_norm (snd kv))) kvs) [])"
| "py_norm VTrace = VTrace"

definition py_eq :: "pyval \<Rightarrow> pyval \<Rightarrow> bool" where
  "py_eq a b = (py_norm a = py_norm b)"

text \<open>
  The order of values, \<^verbatim>\<open>a > b\<close>: between two numbers, between two strings, and between
  two lists, which are compared at the first position where their items are not equal;
  between any other two values the comparison raises \<^verbatim>\<open>TypeError\<close>.
\<close>

fun py_gt :: "pyval \<Rightarrow> pyval \<Rightarrow> exn + bool"
  and py_gt_list :: "pyval list \<Rightarrow> pyval list \<Rightarrow> exn + bool"
where
  "py_gt (VList xs) b =
     (case b of
        VList ys \<Rightarrow> py_gt_list xs ys
      | _ \<Rightarrow> Inl (Exc ''TypeError'' ''> not supported between instances''))"
| "py_gt (VStr s) b =
     (case b of
        VStr t \<Rightarrow> Inr (str_lt t s)
      | _ \<Rightarrow> Inl (Exc ''TypeError'' ''> not supported between instances''))"
| "py_gt a b =
     (case (py_num a, py_num b) of
        (Some x, Some y) \<Rightarrow> Inr (y < x)
      | _ \<Rightarrow> Inl (Exc ''TypeError'' ''> not supported between instances''))"
| "py_gt_list [] ys = Inr False"
| "py_gt_list (x # xs) [] = Inr True"
| "py_gt_list (x # xs) (y # ys) = (if py_eq x y then py_gt_list xs ys else py_gt x y)"

text \<open>
  A comparison of a number of the SDK's own with a value: \<^verbatim>\<open>x > v\<close>, \<^verbatim>\<open>x >= v\<close> and
  \<^verbatim>\<open>v <= x\<close>, \<^verbatim>\<open>x < v\<close>. It raises unless the value is a number.
\<close>

definition num_cmp :: "(rat \<Rightarrow> rat \<Rightarrow> bool) \<Rightarrow> rat \<Rightarrow> pyval \<Rightarrow> exn + bool" where
  "num_cmp rel x v =
     (case py_num v of
        Some y \<Rightarrow> Inr (rel x y)
      | None \<Rightarrow> Inl (Exc ''TypeError'' ''comparison not supported between instances''))"

text \<open>\<^verbatim>\<open>int(x)\<close> of a float: towards zero.\<close>

definition py_int :: "rat \<Rightarrow> int" where
  "py_int x = (if 0 \<le> x then \<lfloor>x\<rfloor> else \<lceil>x\<rceil>)"

text \<open>\<^verbatim>\<open>d[key] = v\<close> on a dict: the value of an existing key is replaced in its place.\<close>

fun dict_set :: "(string \<times> pyval) list \<Rightarrow> string \<Rightarrow> pyval \<Rightarrow> (string \<times> pyval) list" where
  "dict_set [] key v = [(key, v)]"
| "dict_set (kv # rest) key v =
     (if fst kv = key then (key, v) # rest else kv # dict_set rest key v)"

text \<open>The first item of a list for which a function has an answer, and the first index of
  an item in a list that contains it (\<^verbatim>\<open>xs.index(x)\<close>).\<close>

fun first_some :: "('a \<Rightarrow> 'b option) \<Rightarrow> 'a list \<Rightarrow> 'b option" where
  "first_some g [] = None"
| "first_some g (x # xs) = (case g x of Some y \<Rightarrow> Some y | None \<Rightarrow> first_some g xs)"

fun index_of :: "'a \<Rightarrow> 'a list \<Rightarrow> nat" where
  "index_of x [] = 0"
| "index_of x (y # ys) = (if x = y then 0 else Suc (index_of x ys))"

text \<open>An exception of the first step is the exception of the whole.\<close>

definition bind_exn :: "exn + 'a \<Rightarrow> ('a \<Rightarrow> exn + 'b) \<Rightarrow> exn + 'b" where
  "bind_exn m k = (case m of Inl x \<Rightarrow> Inl x | Inr v \<Rightarrow> k v)"

section \<open>cost.py\<close>

text \<open>
  Prices in USD per 1000 tokens, input and output. Costs are computed on exact values;
  \<open>round8\<close> stands for \<^verbatim>\<open>round(x, 8)\<close>.
\<close>

definition MODEL_PRICING :: "(string \<times> rat \<times> rat) list" where
  "MODEL_PRICING =
     [(''anthropic.claude-3-5-sonnet'', 3 / 1000, 15 / 1000),
      (''anthropic.claude-3-sonnet'', 3 / 1000, 15 / 1000),
      (''anthropic.claude-3-haiku'', 25 / 100000, 125 / 100000),
      (''anthropic.claude-3-opus'', 15 / 1000, 75 / 1000),
      (''amazon.titan-text-lite-v1'', 3 / 10000, 4 / 10000),
      (''amazon.titan-text-express-v1'', 8 / 10000, 16 / 10000),
      (''meta.llama3-70b-instruct-v1'', 265 / 100000, 35 / 10000),
      (''meta.llama3-8b-instruct-v1'', 3 / 10000, 6 / 10000),
      (''mistral.mistral-large'', 4 / 1000, 12 / 1000),
      (''mistral.mistral-small'', 1 / 1000, 3 / 1000),
      (''cohere.command-r-plus-v1'', 3 / 1000, 15 / 1000),
      (''_default'', 3 / 1000, 15 / 1000)]"

definition round8 :: "rat \<Rightarrow> rat" where
  "round8 x = of_int (round (x * 100000000)) / 100000000"

text \<open>
  \<^verbatim>\<open>_custom_pricing.get(model_id) or MODEL_PRICING.get(model_id) or
  MODEL_PRICING["_default"]\<close>. A list or a dict is unhashable, so the lookup raises; any
  other value that is not a key falls to the default.
\<close>

definition pricing_for :: "(string \<times> rat \<times> rat) list \<Rightarrow> pyval \<Rightarrow> exn + (rat \<times> rat)" where
  "pricing_for custom mid =
     (case mid of
        VList _ \<Rightarrow> Inl (Exc ''TypeError'' ''unhashable type'')
      | VDict _ \<Rightarrow> Inl (Exc ''TypeError'' ''unhashable type'')
      | VStr s \<Rightarrow>
          Inr (case map_of custom s of
                 Some p \<Rightarrow> p
               | None \<Rightarrow>
                   (case map_of MODEL_PRICING s of
                      Some p \<Rightarrow> p
                    | None \<Rightarrow> (3 / 1000, 15 / 1000)))
      | _ \<Rightarrow> Inr (3 / 1000, 15 / 1000))"

text \<open>
  \<^verbatim>\<open>estimate_cost(model_id, input_tokens, output_tokens)\<close>. The division by 1000 raises
  \<^verbatim>\<open>TypeError\<close> for a token count that is not a number.
\<close>

definition estimate_cost ::
  "(string \<times> rat \<times> rat) list \<Rightarrow> pyval \<Rightarrow> pyval \<Rightarrow> pyval \<Rightarrow> exn + rat"
where
  "estimate_cost custom mid itok otok =
     (case pricing_for custom mid of
        Inl x \<Rightarrow> Inl x
      | Inr (pin, pout) \<Rightarrow>
          (case py_num itok of
             None \<Rightarrow> Inl (Exc ''TypeError'' ''unsupported operand type(s) for /'')
           | Some i \<Rightarrow>
               (case py_num otok of
                  None \<Rightarrow> Inl (Exc ''TypeError'' ''unsupported operand type(s) for /'')
                | Some ot \<Rightarrow> Inr (round8 (i / 1000 * pin + ot / 1000 * pout)))))"

text \<open>\<^verbatim>\<open>set_custom_pricing(model_id, input_per_1k, output_per_1k)\<close>.\<close>

definition set_custom_pricing :: "string \<Rightarrow> rat \<Rightarrow> rat \<Rightarrow> world \<Rightarrow> world" where
  "set_custom_pricing mid pin pout w =
     w\<lparr>custom_pricing := (mid, pin, pout) # custom_pricing w\<rparr>"

section \<open>tracing.py: spans and the trace context\<close>

definition SPAN_TYPES :: "string list" where
  "SPAN_TYPES = [''llm'', ''tool'', ''chain'', ''retrieval'', ''guardrail'', ''custom'']"

fun is_optional_str :: "pyval \<Rightarrow> bool" where
  "is_optional_str VNone = True"
| "is_optional_str (VStr _) = True"
| "is_optional_str _ = False"

text \<open>
  \<^verbatim>\<open>Span(name=..., span_type=..., parent_span_id=..., input=..., model_id=...)\<close>: the
  default factories draw the id and read the clock, and validation rejects a
  \<open>span_type\<close> outside the literal and a \<open>model_id\<close> that is neither \<^verbatim>\<open>None\<close> nor a
  string.
\<close>

definition new_span ::
  "env \<Rightarrow> string \<Rightarrow> string \<Rightarrow> string option \<Rightarrow> string option \<Rightarrow> pyval \<Rightarrow> world
     \<Rightarrow> (exn + span) \<times> world"
where
  "new_span e nm st parent inp mid w =
     (let (sid, w1) = draw_uuid4 e w;
          (now, w2) = read_utcnow e w1
      in if st \<in> set SPAN_TYPES \<and> is_optional_str mid
         then (Inr \<lparr>span_id = sid, parent_span_id = parent, span_type = st, name = nm,
                     started_at = now, ended_at = None, duration_ms = 0,
                     span_input = inp, span_output = None, status = ''OK'', error = None,
                     model_id = mid, input_tokens = VInt 0, output_tokens = VInt 0,
                     estimated_cost_usd = 0\<rparr>, w2)
         else (Inl (Exc ''ValidationError'' ''validation error for Span''), w2))"

text \<open>A cell of the store that holds no span yet.\<close>

definition blank_span :: span where
  "blank_span =
     \<lparr>span_id = [], parent_span_id = None, span_type = ''custom'', name = [],
      started_at = 0, ended_at = None, duration_ms = 0,
      span_input = None, span_output = None, status = ''OK'', error = None,
      model_id = VNone, input_tokens = VInt 0, output_tokens = VInt 0,
      estimated_cost_usd = 0\<rparr>"

text \<open>\<^verbatim>\<open>TraceContext()\<close>.\<close>

definition new_trace_context :: "env \<Rightarrow> world \<Rightarrow> trace_context \<times> world" where
  "new_trace_context e w =
     (let (t, w1) = read_monotonic e w
      in (\<lparr>objs = (\<lambda>_. blank_span), next_ref = 0, spans = [], active_stack = [],
           start_mono = t\<rparr>, w1))"

text \<open>
  \<^verbatim>\<open>TraceContext.start_span(name, span_type, input, model_id)\<close>. The result is the
  reference of the new span object. At the limit the span is constructed without a
  parent and is neither appended to \<^verbatim>\<open>_spans\<close> nor pushed on \<^verbatim>\<open>_active_stack\<close>.
\<close>

definition start_span ::
  "env \<Rightarrow> string \<Rightarrow> string \<Rightarrow> string option \<Rightarrow> pyval \<Rightarrow> trace_context \<Rightarrow> world
     \<Rightarrow> (exn + nat) \<times> trace_context \<times> world"
where
  "start_span e nm st inp mid tc w =
     (if MAX_SPANS_PER_TRACE \<le> length (spans tc) then
        (case new_span e nm st None (truncate_text inp) mid w of
           (Inl x, w') \<Rightarrow> (Inl x, tc, w')
         | (Inr s, w') \<Rightarrow>
             (Inr (next_ref tc),
              tc\<lparr>objs := (objs tc)(next_ref tc := s), next_ref := next_ref tc + 1\<rparr>, w'))
      else
        (let parent_id = (if active_stack tc \<noteq> [] then Some (last (active_stack tc)) else None)
         in case new_span e nm st parent_id (truncate_text inp) mid w of
              (Inl x, w') \<Rightarrow> (Inl x, tc, w')
            | (Inr s, w') \<Rightarrow>
                (Inr (next_ref tc),
                 tc\<lparr>objs := (objs tc)(next_ref tc := s), next_ref := next_ref tc + 1,
                    spans := spans tc @ [next_ref tc],
                    active_stack := active_stack tc @ [span_id s]\<rparr>, w')))"

text \<open>\<^verbatim>\<open>int(x)\<close> of a quotient truncates towards zero.\<close>

definition trunc_div :: "int \<Rightarrow> int \<Rightarrow> int" where
  "trunc_div a b = (if 0 \<le> a then a div b else - ((- a) div b))"

text \<open>
  \<^verbatim>\<open>TraceContext.end_span(span, output, status, error, input_tokens, output_tokens,
  model_id)\<close> on the span object with reference \<open>r\<close>. The fields are assigned one after
  the other, so an exception of \<^verbatim>\<open>estimate_cost\<close> leaves the earlier assignments in
  place and the stack as it was.
\<close>

definition end_span ::
  "env \<Rightarrow> nat \<Rightarrow> string option \<Rightarrow> string \<Rightarrow> string option \<Rightarrow> pyval \<Rightarrow> pyval \<Rightarrow> pyval
     \<Rightarrow> trace_context \<Rightarrow> world \<Rightarrow> (exn + unit) \<times> trace_context \<times> world"
where
  "end_span e r outp st err itok otok mid tc w =
     (let (now, w1) = read_utcnow e w;
          s0 = objs tc r;
          s1 = s0\<lparr>ended_at := Some now, span_output := truncate_text outp, status := st,
                  error := err, input_tokens := itok, output_tokens := otok\<rparr>;
          s2 = (if py_truthy mid then s1\<lparr>model_id := mid\<rparr> else s1);
          s3 = s2\<lparr>duration_ms := trunc_div (now - started_at s2) 1000\<rparr>;
          pop = (\<lambda>stack sid. if stack \<noteq> [] \<and> last stack = sid then butlast stack else stack)
      in if py_truthy (model_id s3) \<and> (py_truthy itok \<or> py_truthy otok) then
           (case estimate_cost (custom_pricing w1) (model_id s3) itok otok of
              Inl x \<Rightarrow> (Inl x, tc\<lparr>objs := (objs tc)(r := s3)\<rparr>, w1)
            | Inr c \<Rightarrow>
                (Inr (),
                 tc\<lparr>objs := (objs tc)(r := s3\<lparr>estimated_cost_usd := c\<rparr>),
                    active_stack := pop (active_stack tc) (span_id s3)\<rparr>, w1))
         else
           (Inr (),
            tc\<lparr>objs := (objs tc)(r := s3),
               active_stack := pop (active_stack tc) (span_id s3)\<rparr>, w1))"

text \<open>
  \<^verbatim>\<open>with trace.span(name, span_type, input, model_id) as s: body\<close>. The body runs
  with the reference of the span; when it raises, the span is ended with status
  \<^verbatim>\<open>ERROR\<close> and the exception goes on, otherwise the span is ended with the output,
  status, error, tokens and model it holds by then. An exception of \<^verbatim>\<open>end_span\<close>
  itself replaces the outcome.
\<close>

definition with_span ::
  "env \<Rightarrow> string \<Rightarrow> string \<Rightarrow> string option \<Rightarrow> pyval
     \<Rightarrow> (nat \<Rightarrow> trace_context \<Rightarrow> world \<Rightarrow> (exn + 'a) \<times> trace_context \<times> world)
     \<Rightarrow> trace_context \<Rightarrow> world \<Rightarrow> (exn + 'a) \<times> trace_context \<times> world"
where
  "with_span e nm st inp mid body tc w =
     (case start_span e nm st inp mid tc w of
        (Inl x, tc1, w1) \<Rightarrow> (Inl x, tc1, w1)
      | (Inr r, tc1, w1) \<Rightarrow>
          (case body r tc1 w1 of
             (Inl x, tc2, w2) \<Rightarrow>
               (let s = objs tc2 r
                in case end_span e r None ''ERROR'' (Some (exn_str e x))
                          (input_tokens s) (output_tokens s) (model_id s) tc2 w2 of
                     (Inl y, tc3, w3) \<Rightarrow> (Inl y, tc3, w3)
                   | (Inr _, tc3, w3) \<Rightarrow> (Inl x, tc3, w3))
           | (Inr v, tc2, w2) \<Rightarrow>
               (let s = objs tc2 r
                in case end_span e r (span_output s) (status s) (error s)
                          (input_tokens s) (output_tokens s) (model_id s) tc2 w2 of
                     (Inl y, tc3, w3) \<Rightarrow> (Inl y, tc3, w3)
                   | (Inr _, tc3, w3) \<Rightarrow> (Inr v, tc3, w3))))"

text \<open>\<^verbatim>\<open>TraceContext.to_dicts()\<close> and the property \<^verbatim>\<open>spans\<close>: the stored spans.\<close>

definition to_dicts :: "trace_context \<Rightarrow> span list" where
  "to_dicts tc = map (objs tc) (spans tc)"

section \<open>status.py: the rate tracker\<close>

text \<open>
  \<^verbatim>\<open>_RateLimitTracker.record_invocation(agent_id)\<close> on the process-wide tracker: the
  reading of the monotonic clock is appended to the agent's list.
\<close>

definition record_invocation :: "env \<Rightarrow> string \<Rightarrow> world \<Rightarrow> world" where
  "record_invocation e agent w =
     (let (now, w1) = read_monotonic e w;
          old = (case rate_counts w1 agent of None \<Rightarrow> [] | Some ts \<Rightarrow> ts)
      in w1\<lparr>rate_counts := (rate_counts w1)(agent := Some (old @ [now]))\<rparr>)"

text \<open>
  \<^verbatim>\<open>_RateLimitTracker.count_in_window(agent_id, window_seconds)\<close>: the timestamps
  strictly after \<^verbatim>\<open>now - window_seconds\<close> are kept and counted. The caller passes
  whatever \<^verbatim>\<open>window_minutes * 60\<close> is; the subtraction raises \<^verbatim>\<open>TypeError\<close> when it
  is not a number, after the clock was read and before anything is written.
\<close>

definition count_in_window :: "env \<Rightarrow> string \<Rightarrow> pyval \<Rightarrow> world \<Rightarrow> (exn + nat) \<times> world" where
  "count_in_window e agent window_seconds w =
     (let (now, w1) = read_monotonic e w
      in case py_num window_seconds of
           None \<Rightarrow> (Inl (Exc ''TypeError'' ''unsupported operand type(s) for -''), w1)
         | Some ws \<Rightarrow>
             (let cutoff = now - ws;
                  old = (case rate_counts w1 agent of None \<Rightarrow> [] | Some ts \<Rightarrow> ts);
                  timestamps = filter (\<lambda>t. cutoff < t) old
              in (Inr (length timestamps),
                  w1\<lparr>rate_counts := (rate_counts w1)(agent := Some timestamps)\<rparr>)))"

section \<open>status.py: the status checker\<close>

definition DEFAULT_STATUS_TTL_SECONDS :: rat where
  "DEFAULT_STATUS_TTL_SECONDS = 10"

text \<open>
  \<^verbatim>\<open>class AgentStatusChecker\<close>: its configuration. Its \<^verbatim>\<open>_cache\<close> is the
  \<open>status_cache\<close> of the process state.
\<close>

record status_checker =
  ck_endpoint_url :: string
  ck_api_key :: string
  ck_ttl :: rat

text \<open>
  \<^verbatim>\<open>AgentStatusChecker._fetch_status(agent_id)\<close>: one GET, recorded in \<open>http_gets\<close>.
  A status code other than 200 gives \<^verbatim>\<open>("ACTIVE", None, [])\<close>; with 200 the body is
  parsed, and \<^verbatim>\<open>data.get\<close> raises when the body is not a JSON object.
\<close>

definition fetch_status ::
  "env \<Rightarrow> status_checker \<Rightarrow> string \<Rightarrow> world \<Rightarrow> (exn + pyval \<times> pyval \<times> pyval) \<times> world"
where
  "fetch_status e ck agent w =
     (let w1 = w\<lparr>http_gets := http_gets w @ [agent]\<rparr>
      in case httpx_get e (length (http_gets w)) agent of
           GetRaises \<Rightarrow> (Inl (Exc ''ConnectError'' ''request failed''), w1)
         | GetResponse code body \<Rightarrow>
             if code \<noteq> 200 then (Inr (VStr ''ACTIVE'', VNone, VList []), w1)
             else
               (case body of
                  None \<Rightarrow> (Inl (Exc ''JSONDecodeError'' ''invalid JSON''), w1)
                | Some data \<Rightarrow>
                    (case py_get data ''status'' (VStr ''ACTIVE'') of
                       Inl x \<Rightarrow> (Inl x, w1)
                     | Inr st \<Rightarrow>
                         (case py_get data ''blocked_reason'' VNone of
                            Inl x \<Rightarrow> (Inl x, w1)
                          | Inr reason \<Rightarrow>
                              (case py_get data ''policies'' (VList []) of
                                 Inl x \<Rightarrow> (Inl x, w1)
                               | Inr policies \<Rightarrow> (Inr (st, reason, policies), w1))))))"

text \<open>
  \<^verbatim>\<open>AgentStatusChecker._fetch_and_cache(agent_id)\<close>: the entry is constructed after the
  fetch returned, and its constructor reads the clock for \<^verbatim>\<open>expires_at\<close>. An exception
  of the fetch leaves the cache as it was.
\<close>

definition fetch_and_cache ::
  "env \<Rightarrow> status_checker \<Rightarrow> string \<Rightarrow> world \<Rightarrow> (exn + unit) \<times> world"
where
  "fetch_and_cache e ck agent w =
     (case fetch_status e ck agent w of
        (Inl x, w1) \<Rightarrow> (Inl x, w1)
      | (Inr (st, reason, policies), w1) \<Rightarrow>
          (let (now, w2) = read_monotonic e w1
           in (Inr (),
               w2\<lparr>status_cache := (status_cache w2)(agent :=
                     Some \<lparr>ce_status = st, ce_blocked_reason = reason,
                           ce_policies = policies, ce_expires_at = now + ck_ttl ck\<rparr>)\<rparr>)))"

text \<open>
  \<^verbatim>\<open>AgentStatusChecker.is_blocked(agent_id)\<close>. The clock is read only when there is an
  entry. \<open>is_blocked_miss\<close> is the part after the cache test.
\<close>

definition is_blocked_miss ::
  "env \<Rightarrow> status_checker \<Rightarrow> string \<Rightarrow> world \<Rightarrow> (bool \<times> pyval) \<times> world"
where
  "is_blocked_miss e ck agent w =
     (case fetch_and_cache e ck agent w of
        (Inl x, w1) \<Rightarrow> ((False, VNone), w1)
      | (Inr _, w1) \<Rightarrow>
          (case status_cache w1 agent of
             Some entry \<Rightarrow> ((ce_status entry = VStr ''BLOCKED'', ce_blocked_reason entry), w1)
           | None \<Rightarrow> ((False, VNone), w1)))"

definition is_blocked ::
  "env \<Rightarrow> status_checker \<Rightarrow> string \<Rightarrow> world \<Rightarrow> (bool \<times> pyval) \<times> world"
where
  "is_blocked e ck agent w =
     (case status_cache w agent of
        None \<Rightarrow> is_blocked_miss e ck agent w
      | Some entry \<Rightarrow>
          (let (now, w1) = read_monotonic e w
           in if now < ce_expires_at entry
              then ((ce_status entry = VStr ''BLOCKED'', ce_blocked_reason entry), w1)
              else is_blocked_miss e ck agent w1))"

text \<open>\<^verbatim>\<open>AgentStatusChecker.get_policies(agent_id)\<close>.\<close>

definition get_policies_miss ::
  "env \<Rightarrow> status_checker \<Rightarrow> string \<Rightarrow> world \<Rightarrow> pyval \<times> world"
where
  "get_policies_miss e ck agent w =
     (case fetch_and_cache e ck agent w of
        (Inl x, w1) \<Rightarrow> (VList [], w1)
      | (Inr _, w1) \<Rightarrow>
          (case status_cache w1 agent of
             Some entry \<Rightarrow> (ce_policies entry, w1)
           | None \<Rightarrow> (VList [], w1)))"

definition get_policies ::
  "env \<Rightarrow> status_checker \<Rightarrow> string \<Rightarrow> world \<Rightarrow> pyval \<times> world"
where
  "get_policies e ck agent w =
     (case status_cache w agent of
        None \<Rightarrow> get_policies_miss e ck agent w
      | Some entry \<Rightarrow>
          (let (now, w1) = read_monotonic e w
           in if now < ce_expires_at entry
              then (ce_policies entry, w1)
              else get_policies_miss e ck agent w1))"

text \<open>\<^verbatim>\<open>invalidate(agent_id)\<close> and \<^verbatim>\<open>clear_cache()\<close>.\<close>

definition invalidate :: "string \<Rightarrow> world \<Rightarrow> world" where
  "invalidate agent w = w\<lparr>status_cache := (status_cache w)(agent := None)\<rparr>"

definition clear_cache :: "world \<Rightarrow> world" where
  "clear_cache w = w\<lparr>status_cache := (\<lambda>_. None)\<rparr>"

text \<open>
  A sequence of reads of the checker, and the number of GET requests made for an agent
  so far.
\<close>

datatype checker_call = IsBlocked string | GetPolicies string

fun run_call :: "env \<Rightarrow> status_checker \<Rightarrow> checker_call \<Rightarrow> world \<Rightarrow> world" where
  "run_call e ck (IsBlocked agent) w = snd (is_blocked e ck agent w)"
| "run_call e ck (GetPolicies agent) w = snd (get_policies e ck agent w)"

fun run_calls :: "env \<Rightarrow> status_checker \<Rightarrow> checker_call list \<Rightarrow> world \<Rightarrow> world" where
  "run_calls e ck [] w = w"
| "run_calls e ck (c # cs) w = run_calls e ck cs (run_call e ck c w)"

definition gets_for :: "string \<Rightarrow> world \<Rightarrow> nat" where
  "gets_for agent w = length (filter (\<lambda>a. a = agent) (http_gets w))"

text \<open>
  A GET that ends in a cache entry: a response whose status is not 200, or a 200 whose
  body is a JSON object. The others (no response, a body that does not parse or is not
  an object) raise.
\<close>

fun fetch_ok :: "http_get \<Rightarrow> bool" where
  "fetch_ok GetRaises = False"
| "fetch_ok (GetResponse code body) =
     (code \<noteq> 200 \<or> (case body of Some (VDict _) \<Rightarrow> True | _ \<Rightarrow> False))"

text \<open>
  A miss or an expiry: there is no entry for the agent, or the next reading of the clock
  is not before \<open>expires_at\<close>. \<open>insert_reading\<close> is the number of the clock reading that
  the insertion of the new entry takes then (one reading later when the freshness test
  read the clock).
\<close>

definition stale :: "env \<Rightarrow> string \<Rightarrow> world \<Rightarrow> bool" where
  "stale e agent w =
     (case status_cache w agent of
        None \<Rightarrow> True
      | Some entry \<Rightarrow> ce_expires_at entry \<le> monotonic e (mono_reads w))"

definition insert_reading :: "string \<Rightarrow> world \<Rightarrow> nat" where
  "insert_reading agent w =
     (case status_cache w agent of None \<Rightarrow> mono_reads w | Some _ \<Rightarrow> mono_reads w + 1)"

text \<open>
  What one read of the checker does to the cache entry of agent \<open>a\<close> when every GET for
  \<open>a\<close> ends in a cache entry: either it makes no GET for \<open>a\<close> and leaves the entry as it
  was, or it makes one GET for \<open>a\<close> and inserts an entry that expires one TTL after a
  clock reading \<open>k\<close> of this read; and if there was an entry before, a clock reading of
  this read, not later than \<open>k\<close>, had reached its \<open>expires_at\<close>.
\<close>

definition fetch_step :: "env \<Rightarrow> status_checker \<Rightarrow> string \<Rightarrow> world \<Rightarrow> world \<Rightarrow> bool" where
  "fetch_step e ck a w w1 \<longleftrightarrow>
     mono_reads w \<le> mono_reads w1
     \<and> ((gets_for a w1 = gets_for a w \<and> status_cache w1 a = status_cache w a)
        \<or> (gets_for a w1 = gets_for a w + 1
           \<and> (\<exists>k ent'. mono_reads w \<le> k \<and> k < mono_reads w1
                  \<and> status_cache w1 a = Some ent'
                  \<and> ce_expires_at ent' = monotonic e k + ck_ttl ck
                  \<and> (\<forall>ent. status_cache w a = Some ent \<longrightarrow>
                        (\<exists>j. mono_reads w \<le> j \<and> j \<le> k
                            \<and> ce_expires_at ent \<le> monotonic e j)))))"

text \<open>
  The earliest time at which the next entry for agent \<open>a\<close> can be inserted, in a window
  that starts at \<open>lo\<close>, and the number of insertions that fit between it and \<open>hi\<close> when
  consecutive insertions are at least one TTL apart.
\<close>

definition next_insert :: "string \<Rightarrow> rat \<Rightarrow> world \<Rightarrow> rat" where
  "next_insert a lo w =
     (case status_cache w a of None \<Rightarrow> lo | Some entry \<Rightarrow> max lo (ce_expires_at entry))"

definition fetch_budget :: "status_checker \<Rightarrow> string \<Rightarrow> rat \<Rightarrow> rat \<Rightarrow> world \<Rightarrow> int" where
  "fetch_budget ck a lo hi w =
     (if next_insert a lo w \<le> hi
      then \<lfloor>(hi - next_insert a lo w) / ck_ttl ck\<rfloor> + 1 else 0)"

section \<open>fingerprint.py\<close>

text \<open>
  The pattern \<^verbatim>\<open>_TEMPLATE_VAR_RE = \{([a-zA-Z_]\w*)\}\<close>. \<^verbatim>\<open>\w\<close> on a \<^verbatim>\<open>str\<close> pattern
  is the underscore and the alphanumeric characters: below 256 these are the ASCII
  letters and digits, the code points 170, 178, 179, 181, 185, 186, 188 to 190, and 192
  to 255 without 215 and 247. U+0130 is a letter; U+0307 is a combining mark and not
  alphanumeric.
\<close>

definition latin_ident_start :: "char \<Rightarrow> bool" where
  "latin_ident_start c =
     (let n = (of_char c :: nat)
      in (65 \<le> n \<and> n \<le> 90) \<or> (97 \<le> n \<and> n \<le> 122) \<or> n = 95)"

fun is_ident_start :: "uchar \<Rightarrow> bool" where
  "is_ident_start (L1 c) = latin_ident_start c"
| "is_ident_start U0130 = False"
| "is_ident_start U0307 = False"

definition latin_word :: "char \<Rightarrow> bool" where
  "latin_word c =
     (let n = (of_char c :: nat)
      in (48 \<le> n \<and> n \<le> 57) \<or> (65 \<le> n \<and> n \<le> 90) \<or> (97 \<le> n \<and> n \<le> 122) \<or> n = 95
         \<or> n = 170 \<or> n = 178 \<or> n = 179 \<or> n = 181 \<or> n = 185 \<or> n = 186
         \<or> (188 \<le> n \<and> n \<le> 190) \<or> (192 \<le> n \<and> n \<noteq> 215 \<and> n \<noteq> 247))"

fun is_word :: "uchar \<Rightarrow> bool" where
  "is_word (L1 c) = latin_word c"
| "is_word U0130 = True"
| "is_word U0307 = False"

text \<open>
  A match of the pattern at the head of a string: the group and the rest of the string
  after the closing brace. \<^verbatim>\<open>\w*\<close> takes every word character, and none of them is
  the brace, so there is no other way to match.
\<close>

definition match_var :: "ustring \<Rightarrow> (ustring \<times> ustring) option" where
  "match_var s =
     (case s of
        c0 # c1 # rest \<Rightarrow>
          if c0 = L1 (CHR 0x7B) \<and> is_ident_start c1 then
            (case dropWhile is_word rest of
               c2 # rest2 \<Rightarrow>
                 if c2 = L1 (CHR 0x7D) then Some (c1 # takeWhile is_word rest, rest2) else None
             | [] \<Rightarrow> None)
          else None
      | _ \<Rightarrow> None)"

text \<open>
  The scan of \<^verbatim>\<open>findall\<close> and \<^verbatim>\<open>sub\<close>: from left to right, a match is taken where it
  begins and the scan goes on after it; elsewhere the character is passed over.
\<close>

function re_scan :: "ustring \<Rightarrow> (ustring + uchar) list" where
  "re_scan [] = []"
| "re_scan (c # cs) =
     (case match_var (c # cs) of
        Some (nm, rest) \<Rightarrow> Inl nm # re_scan rest
      | None \<Rightarrow> Inr c # re_scan cs)"
  by pat_completeness auto

termination
proof (relation "measure length")
  show "wf (measure length)" by simp
next
  fix c :: uchar and cs x2 nm rest
  assume m: "match_var (c # cs) = Some x2" and x2: "(nm, rest) = x2"
  from m x2 obtain c1 r c2 where cs: "cs = c1 # r" and d: "dropWhile is_word r = c2 # rest"
    by (auto simp: match_var_def split: list.splits if_splits)
  have "length (dropWhile is_word r) \<le> length r"
    by (rule length_dropWhile_le)
  with cs d have "length rest < length (c # cs)" by simp
  then show "(rest, c # cs) \<in> measure length" by simp
next
  fix c :: uchar and cs
  show "(cs, c # cs) \<in> measure length" by simp
qed

definition re_findall :: "ustring \<Rightarrow> ustring list" where
  "re_findall s = concat (map (case_sum (\<lambda>nm. [nm]) (\<lambda>c. [])) (re_scan s))"

definition re_sub :: "ustring \<Rightarrow> ustring \<Rightarrow> ustring" where
  "re_sub repl s = concat (map (case_sum (\<lambda>nm. repl) (\<lambda>c. [c])) (re_scan s))"

text \<open>
  \<^verbatim>\<open>compute_fingerprint(prompt)\<close>, with the two intermediate values it hashes:
  \<^verbatim>\<open>normalized = prompt.strip().lower()\<close> and
  \<^verbatim>\<open>skeleton = _TEMPLATE_VAR_RE.sub("{VAR}", prompt.strip().lower())\<close>.
\<close>

definition normalized :: "ustring \<Rightarrow> ustring" where
  "normalized prompt = py_lower (py_strip prompt)"

definition skeleton :: "ustring \<Rightarrow> ustring" where
  "skeleton prompt = re_sub (map L1 ''{VAR}'') (py_lower (py_strip prompt))"

definition compute_fingerprint :: "env \<Rightarrow> ustring \<Rightarrow> fingerprint" where
  "compute_fingerprint e prompt =
     (if prompt = [] then
        \<lparr>prompt_hash = sha256_hex e [], structure_hash = sha256_hex e [],
         char_count = 0, word_count = 0, line_count = 0, template_vars = []\<rparr>
      else
        \<lparr>prompt_hash = sha256_hex e (normalized prompt),
         structure_hash = sha256_hex e (skeleton prompt),
         char_count = length prompt,
         word_count = length (py_split prompt),
         line_count = count_newlines prompt + 1,
         template_vars = sorted_set (re_findall prompt)\<rparr>)"



section \<open>transport.py: the HTTP flush\<close>

definition MAX_RETRIES :: nat where
  "MAX_RETRIES = 3"

definition INITIAL_BACKOFF_SECONDS :: rat where
  "INITIAL_BACKOFF_SECONDS = 1"

definition BACKOFF_MULTIPLIER :: rat where
  "BACKOFF_MULTIPLIER = 2"

text \<open>
  What one \<^verbatim>\<open>httpx.post\<close> does: it returns a response with a status code, or it raises
  (network error, timeout, DNS failure).
\<close>

datatype http_result = Response int | TransportError

text \<open>
  The effects of a flush, in the order they happen: a POST of the batch, a
  \<^verbatim>\<open>time.sleep\<close>, the warning for a rejected batch and the error for a dropped one.
\<close>

datatype flush_effect =
    Post "string list"
  | Sleep rat
  | WarnRejected int
  | WarnServerError int nat
  | WarnException nat
  | ErrorDropped nat

text \<open>
  The body of \<^verbatim>\<open>for attempt in range(MAX_RETRIES + 1)\<close>, over the attempts still to be
  made. \<open>srv attempt\<close> is what the POST of that attempt meets. A status below 400 and a
  4xx status return from the function; anything else (a 5xx status, an exception) falls
  through to the backoff, which sleeps only when another attempt follows.
\<close>

fun flush_attempts ::
  "(nat \<Rightarrow> http_result) \<Rightarrow> string list \<Rightarrow> nat list \<Rightarrow> rat \<Rightarrow> flush_effect list"
where
  "flush_attempts srv batch [] backoff = [ErrorDropped (length batch)]"
| "flush_attempts srv batch (attempt # rest) backoff =
     Post batch #
     (case srv attempt of
        Response code \<Rightarrow>
          if code < 400 then []
          else if 400 \<le> code \<and> code < 500 then [WarnRejected code]
          else
            WarnServerError code (attempt + 1) #
            (if attempt < MAX_RETRIES
             then Sleep backoff # flush_attempts srv batch rest (backoff * BACKOFF_MULTIPLIER)
             else flush_attempts srv batch rest backoff)
      | TransportError \<Rightarrow>
          WarnException (attempt + 1) #
          (if attempt < MAX_RETRIES
           then Sleep backoff # flush_attempts srv batch rest (backoff * BACKOFF_MULTIPLIER)
           else flush_attempts srv batch rest backoff))"

text \<open>\<^verbatim>\<open>EventTransport._flush_http(batch)\<close>.\<close>

definition flush_http :: "(nat \<Rightarrow> http_result) \<Rightarrow> string list \<Rightarrow> flush_effect list" where
  "flush_http srv batch =
     flush_attempts srv batch [0 ..< MAX_RETRIES + 1] INITIAL_BACKOFF_SECONDS"

text \<open>The POST attempts of a flush, and the seconds slept between them.\<close>

fun is_post :: "flush_effect \<Rightarrow> bool" where
  "is_post (Post _) = True"
| "is_post _ = False"

fun sleep_of :: "flush_effect \<Rightarrow> rat option" where
  "sleep_of (Sleep s) = Some s"
| "sleep_of _ = None"

definition post_count :: "flush_effect list \<Rightarrow> nat" where
  "post_count es = length (filter is_post es)"

definition sleeps :: "flush_effect list \<Rightarrow> rat list" where
  "sleeps es = List.map_filter sleep_of es"

text \<open>
  The network traffic of a flush: its effects without the log records, so that it reads
  as attempts separated by sleeps.
\<close>

fun is_log :: "flush_effect \<Rightarrow> bool" where
  "is_log (Post _) = False"
| "is_log (Sleep _) = False"
| "is_log _ = True"

definition traffic :: "flush_effect list \<Rightarrow> flush_effect list" where
  "traffic es = filter (\<lambda>e. \<not> is_log e) es"

text \<open>
  A result that the loop retries: a status of 500 or more, or an exception of the POST.
\<close>

definition retryable :: "http_result \<Rightarrow> bool" where
  "retryable r = (case r of Response code \<Rightarrow> 500 \<le> code | TransportError \<Rightarrow> True)"

text \<open>
  \<^verbatim>\<open>EventTransport.send(event)\<close>: \<^verbatim>\<open>put_nowait\<close> on the queue, which was made with
  \<^verbatim>\<open>maxsize = max_queue_size\<close> (unbounded when that is not positive); when the queue is
  full the event is dropped with a warning. The queue holds what was put and not yet
  taken.
\<close>

definition send :: "int \<Rightarrow> telemetry_event \<Rightarrow> world \<Rightarrow> (exn + unit) \<times> world" where
  "send max_queue_size event w =
     (if 0 < max_queue_size \<and> max_queue_size \<le> int (length (event_queue w)) then (Inr (), w)
      else (Inr (), w\<lparr>event_queue := event_queue w @ [event]\<rparr>))"

section \<open>User functions\<close>

text \<open>
  A function that the SDK wraps: its \<^verbatim>\<open>__name__\<close>, its parameters as
  \<^verbatim>\<open>inspect.signature\<close> lists them (name, kind, and whether there is a default), and
  its body. The body receives the positional and the keyword arguments; the trace context
  of the invocation is the object that the value \<open>VTrace\<close> refers to, and the body may
  raise, change the trace and change the state of the process.
\<close>

datatype param_kind = PositionalOrKeyword | VarPositional | KeywordOnly | VarKeyword

record param =
  p_name :: string
  p_kind :: param_kind
  p_has_default :: bool

record pyfunc =
  fn_name :: string
  fn_params :: "param list"
  fn_body :: "pyval list \<Rightarrow> (string \<times> pyval) list \<Rightarrow> trace_context \<Rightarrow> world
                \<Rightarrow> (exn + pyval) \<times> trace_context \<times> world"

text \<open>\<^verbatim>\<open>list(inspect.signature(func).parameters.keys())\<close>.\<close>

definition sig_parameters :: "pyfunc \<Rightarrow> string list" where
  "sig_parameters f = map p_name (fn_params f)"

definition params_of_kind :: "param_kind \<Rightarrow> pyfunc \<Rightarrow> param list" where
  "params_of_kind k f = filter (\<lambda>p. p_kind p = k) (fn_params f)"

text \<open>
  The binding of the arguments of a call \<^verbatim>\<open>func(*args, **kwargs)\<close> to the parameters,
  which raises \<^verbatim>\<open>TypeError\<close> before the body runs: for a keyword that names a parameter
  already given by position, or names no parameter when there is no \<^verbatim>\<open>**kwargs\<close>; for
  more positional arguments than parameters when there is no \<^verbatim>\<open>*args\<close>; for a
  parameter without default that no argument gives.
\<close>

definition keyword_error :: "pyfunc \<Rightarrow> nat \<Rightarrow> string \<Rightarrow> exn option" where
  "keyword_error f nargs key =
     (let pos = map p_name (params_of_kind PositionalOrKeyword f)
      in if key \<in> set pos then
           (if index_of key pos < nargs
            then Some (Exc ''TypeError'' (fn_name f @ ''() got multiple values for argument ''
                         @ apostrophe @ key @ apostrophe))
            else None)
         else if key \<in> set (map p_name (params_of_kind KeywordOnly f)) then None
         else if params_of_kind VarKeyword f \<noteq> [] then None
         else Some (Exc ''TypeError'' (fn_name f @ ''() got an unexpected keyword argument ''
                      @ apostrophe @ key @ apostrophe)))"

definition bind_error :: "pyfunc \<Rightarrow> pyval list \<Rightarrow> (string \<times> pyval) list \<Rightarrow> exn option" where
  "bind_error f args kwargs =
     (let pos = params_of_kind PositionalOrKeyword f;
          given = (\<lambda>p. p_has_default p \<or> p_name p \<in> set (map fst kwargs))
      in case first_some (keyword_error f (length args)) (map fst kwargs) of
           Some x \<Rightarrow> Some x
         | None \<Rightarrow>
             if length pos < length args \<and> params_of_kind VarPositional f = [] then
               Some (Exc ''TypeError'' (fn_name f @ ''() takes fewer positional arguments''))
             else if \<not> list_all given (drop (length args) pos) then
               Some (Exc ''TypeError'' (fn_name f @ ''() missing required positional arguments''))
             else if \<not> list_all given (params_of_kind KeywordOnly f) then
               Some (Exc ''TypeError'' (fn_name f @ ''() missing required keyword-only arguments''))
             else None)"

text \<open>
  The call \<^verbatim>\<open>func(*args, **kwargs)\<close>. \<open>user_calls\<close> counts the calls whose body was
  entered.
\<close>

definition py_call ::
  "pyfunc \<Rightarrow> pyval list \<Rightarrow> (string \<times> pyval) list \<Rightarrow> trace_context \<Rightarrow> world
     \<Rightarrow> (exn + pyval) \<times> trace_context \<times> world"
where
  "py_call f args kwargs tc w =
     (case bind_error f args kwargs of
        Some x \<Rightarrow> (Inl x, tc, w)
      | None \<Rightarrow>
          (case fn_body f args kwargs tc w of
             (r, tc1, w1) \<Rightarrow> (r, tc1, w1\<lparr>user_calls := user_calls w + 1\<rparr>)))"

section \<open>decorators.py: what the wrapper reads from a response\<close>

text \<open>
  \<^verbatim>\<open>ObserveDecorator._extract_tokens(response)\<close>. Everything after the test for
  \<^verbatim>\<open>None\<close> is inside \<^verbatim>\<open>try\<close>, and an exception there (\<^verbatim>\<open>.get\<close> on a value that is not a
  dict) gives \<^verbatim>\<open>(0, 0)\<close>. The counts are returned as they are found, whatever their
  type.
\<close>

definition extract_tokens_try :: "pyval \<Rightarrow> exn + (pyval \<times> pyval)" where
  "extract_tokens_try response =
     (case response of
        VDict kvs \<Rightarrow>
          (let usage = dict_get kvs ''usage'' (VDict [])
           in if py_truthy usage then
                bind_exn (py_get usage ''input_tokens'' (VInt 0)) (\<lambda>dflt_in.
                bind_exn (py_get usage ''inputTokens'' dflt_in) (\<lambda>itok.
                bind_exn (py_get usage ''output_tokens'' (VInt 0)) (\<lambda>dflt_out.
                bind_exn (py_get usage ''outputTokens'' dflt_out) (\<lambda>otok.
                  Inr (itok, otok)))))
              else
                bind_exn (py_get (dict_get kvs ''ResponseMetadata'' (VDict [])) ''usage''
                            (VDict [])) (\<lambda>usage2.
                  if py_truthy usage2 then
                    bind_exn (py_get usage2 ''inputTokens'' (VInt 0)) (\<lambda>itok.
                    bind_exn (py_get usage2 ''outputTokens'' (VInt 0)) (\<lambda>otok.
                      Inr (itok, otok)))
                  else Inr (VInt 0, VInt 0)))
      | _ \<Rightarrow> Inr (VInt 0, VInt 0))"

definition extract_tokens :: "pyval \<Rightarrow> pyval \<times> pyval" where
  "extract_tokens response =
     (if response = VNone then (VInt 0, VInt 0)
      else case extract_tokens_try response of
             Inl x \<Rightarrow> (VInt 0, VInt 0)
           | Inr toks \<Rightarrow> toks)"

text \<open>
  \<^verbatim>\<open>ObserveDecorator._extract_model_id(response)\<close>:
  \<^verbatim>\<open>response.get("modelId") or response.get("model_id")\<close> for a dict, \<^verbatim>\<open>None\<close> otherwise.
\<close>

definition extract_model_id :: "pyval \<Rightarrow> pyval" where
  "extract_model_id response =
     (case response of
        VDict kvs \<Rightarrow>
          (let m = dict_get kvs ''modelId'' VNone
           in if py_truthy m then m else dict_get kvs ''model_id'' VNone)
      | _ \<Rightarrow> VNone)"

text \<open>
  \<^verbatim>\<open>ObserveDecorator._extract_prompt_text(args, kwargs, sig)\<close>: a keyword argument with
  one of the four names that is a string; then a positional argument at the position of
  a parameter with one of the four names that is a string; then the first positional
  string.
\<close>

definition PROMPT_KEYS :: "string list" where
  "PROMPT_KEYS = [''prompt'', ''input_text'', ''query'', ''message'']"

definition as_str :: "pyval \<Rightarrow> string option" where
  "as_str v = (case v of VStr s \<Rightarrow> Some s | _ \<Rightarrow> None)"

definition extract_prompt_text ::
  "pyval list \<Rightarrow> (string \<times> pyval) list \<Rightarrow> string list \<Rightarrow> string option"
where
  "extract_prompt_text args kwargs params =
     (case first_some (\<lambda>key. case map_of kwargs key of
                                Some v \<Rightarrow> as_str v
                              | None \<Rightarrow> None) PROMPT_KEYS of
        Some s \<Rightarrow> Some s
      | None \<Rightarrow>
          (case first_some (\<lambda>key. if key \<in> set params \<and> index_of key params < length args
                                  then as_str (args ! index_of key params)
                                  else None) PROMPT_KEYS of
             Some s \<Rightarrow> Some s
           | None \<Rightarrow> first_some as_str args))"

text \<open>\<^verbatim>\<open>ObserveDecorator._detect_region()\<close>.\<close>

definition detect_region :: "env \<Rightarrow> string" where
  "detect_region e = (case aws_default_region e of Some r \<Rightarrow> r | None \<Rightarrow> ''us-east-1'')"

section \<open>decorators.py: spans from a Bedrock trace\<close>

text \<open>
  \<^verbatim>\<open>with trace.span(name=v, ...)\<close> where the name is a value read from the response: the
  constructor of the span rejects a name that is not a string.
\<close>

definition with_span_named ::
  "env \<Rightarrow> pyval \<Rightarrow> string \<Rightarrow> string option \<Rightarrow> pyval
     \<Rightarrow> (nat \<Rightarrow> trace_context \<Rightarrow> world \<Rightarrow> (exn + 'a) \<times> trace_context \<times> world)
     \<Rightarrow> trace_context \<Rightarrow> world \<Rightarrow> (exn + 'a) \<times> trace_context \<times> world"
where
  "with_span_named e nm st inp mid body tc w =
     (case nm of
        VStr s \<Rightarrow> with_span e s st inp mid body tc w
      | _ \<Rightarrow>
          (let (sid, w1) = draw_uuid4 e w;
               (now, w2) = read_utcnow e w1
           in (Inl (Exc ''ValidationError'' ''validation error for Span''), tc, w2)))"

text \<open>The assignment \<^verbatim>\<open>s.output = out\<close> to the span object with reference \<open>s\<close>.\<close>

definition set_output :: "nat \<Rightarrow> string option \<Rightarrow> trace_context \<Rightarrow> trace_context" where
  "set_output s out tc = tc\<lparr>objs := (objs tc)(s := (objs tc s)\<lparr>span_output := out\<rparr>)\<rparr>"

text \<open>
  The body of the first loop of \<^verbatim>\<open>_extract_bedrock_trace\<close>, for a step that is a dict,
  and of the second, for an invocation input that is a dict.
\<close>

definition llm_step ::
  "env \<Rightarrow> (string \<times> pyval) list \<Rightarrow> trace_context \<Rightarrow> world
     \<Rightarrow> (exn + unit) \<times> trace_context \<times> world"
where
  "llm_step e step tc w =
     with_span_named e (dict_get step ''type'' (VStr ''llm_call'')) ''llm''
       (Some (py_slice_to 2000 (py_str e (dict_get step ''text'' (VStr '''')))))
       (dict_get step ''foundationModel'' VNone)
       (\<lambda>s tc1 w1.
          case py_get (dict_get step ''rawResponse'' (VDict [])) ''content'' (VStr '''') of
            Inl x \<Rightarrow> (Inl x, tc1, w1)
          | Inr content \<Rightarrow>
              (Inr (), set_output s (Some (py_slice_to 2000 (py_str e content))) tc1, w1))
       tc w"

definition tool_step ::
  "env \<Rightarrow> (string \<times> pyval) list \<Rightarrow> trace_context \<Rightarrow> world
     \<Rightarrow> (exn + unit) \<times> trace_context \<times> world"
where
  "tool_step e item tc w =
     (let action_input = dict_get item ''actionGroupInvocationInput'' (VDict [])
      in if py_truthy action_input then
           (case py_get action_input ''actionGroupName'' (VStr ''action_group'') of
              Inl x \<Rightarrow> (Inl x, tc, w)
            | Inr nm \<Rightarrow>
                (case py_get action_input ''apiPath'' (VStr '''') of
                   Inl x \<Rightarrow> (Inl x, tc, w)
                 | Inr path \<Rightarrow>
                     with_span_named e nm ''tool'' (Some (py_str e path)) VNone
                       (\<lambda>s tc1 w1.
                          case py_get action_input ''verb'' (VStr '''') of
                            Inl x \<Rightarrow> (Inl x, tc1, w1)
                          | Inr verb \<Rightarrow> (Inr (), set_output s (Some (py_str e verb)) tc1, w1))
                       tc w))
         else (Inr (), tc, w))"

text \<open>A loop over items that runs its body on those that are dicts, until one raises.\<close>

fun for_dicts ::
  "((string \<times> pyval) list \<Rightarrow> trace_context \<Rightarrow> world \<Rightarrow> (exn + unit) \<times> trace_context \<times> world)
     \<Rightarrow> pyval list \<Rightarrow> trace_context \<Rightarrow> world \<Rightarrow> (exn + unit) \<times> trace_context \<times> world"
where
  "for_dicts body [] tc w = (Inr (), tc, w)"
| "for_dicts body (x # xs) tc w =
     (case x of
        VDict kvs \<Rightarrow>
          (case body kvs tc w of
             (Inl err, tc1, w1) \<Rightarrow> (Inl err, tc1, w1)
           | (Inr u, tc1, w1) \<Rightarrow> for_dicts body xs tc1 w1)
      | _ \<Rightarrow> for_dicts body xs tc w)"

text \<open>
  \<^verbatim>\<open>ObserveDecorator._extract_bedrock_trace(response, trace)\<close>: the part inside
  \<^verbatim>\<open>try\<close>, and the whole, which swallows the exception and keeps the spans made
  before it.
\<close>

definition extract_bedrock_trace_try ::
  "env \<Rightarrow> (string \<times> pyval) list \<Rightarrow> trace_context \<Rightarrow> world
     \<Rightarrow> (exn + unit) \<times> trace_context \<times> world"
where
  "extract_bedrock_trace_try e response tc w =
     (case py_get (dict_get response ''trace'' (VDict [])) ''orchestrationTrace'' (VDict []) of
        Inl x \<Rightarrow> (Inl x, tc, w)
      | Inr orch_trace \<Rightarrow>
          if \<not> py_truthy orch_trace then (Inr (), tc, w)
          else
            (case bind_exn (py_get orch_trace ''modelInvocationInput'' (VList [])) py_iter of
               Inl x \<Rightarrow> (Inl x, tc, w)
             | Inr steps \<Rightarrow>
                 (case for_dicts (llm_step e) steps tc w of
                    (Inl x, tc1, w1) \<Rightarrow> (Inl x, tc1, w1)
                  | (Inr u, tc1, w1) \<Rightarrow>
                      (case bind_exn (py_get orch_trace ''invocationInput'' (VList []))
                              py_iter of
                         Inl x \<Rightarrow> (Inl x, tc1, w1)
                       | Inr invs \<Rightarrow> for_dicts (tool_step e) invs tc1 w1))))"

definition extract_bedrock_trace ::
  "env \<Rightarrow> pyval \<Rightarrow> trace_context \<Rightarrow> world \<Rightarrow> trace_context \<times> world"
where
  "extract_bedrock_trace e response tc w =
     (case response of
        VDict kvs \<Rightarrow> snd (extract_bedrock_trace_try e kvs tc w)
      | _ \<Rightarrow> (tc, w))"

section \<open>schema.py: the telemetry event\<close>

text \<open>
  The keyword arguments with which the wrapper constructs the event. The model and the
  token counts are what was read from the response.
\<close>

record event_kwargs =
  kw_event_type :: string
  kw_api_key :: string
  kw_agent_id :: string
  kw_agent_name :: "string option"
  kw_model_id :: pyval
  kw_region :: string
  kw_started_at :: int
  kw_ended_at :: int
  kw_duration_ms :: int
  kw_input_tokens :: pyval
  kw_output_tokens :: pyval
  kw_estimated_cost_usd :: rat
  kw_status :: string
  kw_error_message :: "string option"
  kw_error_type :: "string option"
  kw_tools_called :: "string list"
  kw_prompt_summary :: "string option"
  kw_prompt_fingerprint :: "fingerprint option"
  kw_spans :: "span list"
  kw_sdk_version :: string

text \<open>
  The validation of an \<^verbatim>\<open>int\<close> field on a number: an integer and a bool are taken, and
  so is a float without fractional part; a float with one is rejected. A value that is
  not a number does not reach the constructor of the event, because the argument
  \<^verbatim>\<open>estimate_cost(model_id, input_tokens, output_tokens)\<close> is evaluated before the
  constructor is called and raises on it.
\<close>

definition int_field :: "pyval \<Rightarrow> int option" where
  "int_field v =
     (case py_num v of
        Some x \<Rightarrow> if x = of_int \<lfloor>x\<rfloor> then Some \<lfloor>x\<rfloor> else None
      | None \<Rightarrow> None)"

text \<open>
  \<^verbatim>\<open>TelemetryEvent(...)\<close>: the default factories draw \<open>event_id\<close>, read the clock for
  \<open>timestamp\<close> and draw \<open>invocation_id\<close>; validation rejects an \<open>event_type\<close> or a
  \<open>status\<close> outside its literal, a \<open>model_id\<close> that is not a string, and a token count
  that is not an integer.
\<close>

definition new_telemetry_event ::
  "env \<Rightarrow> event_kwargs \<Rightarrow> world \<Rightarrow> (exn + telemetry_event) \<times> world"
where
  "new_telemetry_event e kw w =
     (let (eid, w1) = draw_uuid4 e w;
          (ts, w2) = read_utcnow e w1;
          (iid, w3) = draw_uuid4 e w2
      in if kw_event_type kw \<in> set [''invocation.started'', ''invocation.completed'',
                                      ''invocation.failed'']
            \<and> kw_status kw \<in> set [''SUCCESS'', ''FAILURE'', ''TIMEOUT'']
         then
           (case (kw_model_id kw, int_field (kw_input_tokens kw),
                  int_field (kw_output_tokens kw)) of
              (VStr m, Some itok, Some otok) \<Rightarrow>
                (Inr \<lparr>ev_event_id = eid, ev_event_type = kw_event_type kw, ev_timestamp = ts,
                       ev_api_key = kw_api_key kw, ev_agent_id = kw_agent_id kw,
                       ev_agent_name = kw_agent_name kw, ev_invocation_id = iid,
                       ev_model_id = m, ev_region = kw_region kw,
                       ev_started_at = kw_started_at kw, ev_ended_at = kw_ended_at kw,
                       ev_duration_ms = kw_duration_ms kw, ev_input_tokens = itok,
                       ev_output_tokens = otok,
                       ev_estimated_cost_usd = kw_estimated_cost_usd kw,
                       ev_status = kw_status kw, ev_error_message = kw_error_message kw,
                       ev_error_type = kw_error_type kw,
                       ev_tools_called = kw_tools_called kw,
                       ev_prompt_summary = kw_prompt_summary kw,
                       ev_prompt_fingerprint = kw_prompt_fingerprint kw,
                       ev_spans = kw_spans kw, ev_sdk_version = kw_sdk_version kw\<rparr>, w3)
            | _ \<Rightarrow> (Inl (Exc ''ValidationError'' ''validation error for TelemetryEvent''), w3))
         else (Inl (Exc ''ValidationError'' ''validation error for TelemetryEvent''), w3))"

section \<open>decorators.py: the decorator and its policies\<close>

text \<open>
  \<^verbatim>\<open>class ObserveDecorator\<close>. The transport is any object with a \<^verbatim>\<open>send\<close> method, which
  is what the field holds; \<open>od_model_id\<close> is \<^verbatim>\<open>model_id or "unknown"\<close>.
\<close>

record observe_decorator =
  od_transport :: "telemetry_event \<Rightarrow> world \<Rightarrow> (exn + unit) \<times> world"
  od_agent_id :: string
  od_agent_name :: "string option"
  od_model_id :: string
  od_api_key :: string
  od_sdk_version :: string
  od_status_checker :: "status_checker option"

definition observe_decorator_init ::
  "(telemetry_event \<Rightarrow> world \<Rightarrow> (exn + unit) \<times> world) \<Rightarrow> string \<Rightarrow> string option
     \<Rightarrow> string option \<Rightarrow> string \<Rightarrow> string \<Rightarrow> status_checker option \<Rightarrow> observe_decorator"
where
  "observe_decorator_init transport agent_id agent_name mid api_key sdk_version checker =
     \<lparr>od_transport = transport, od_agent_id = agent_id, od_agent_name = agent_name,
      od_model_id = (case mid of Some m \<Rightarrow> if m \<noteq> [] then m else ''unknown''
                     | None \<Rightarrow> ''unknown''),
      od_api_key = api_key, od_sdk_version = sdk_version, od_status_checker = checker\<rparr>"

text \<open>\<^verbatim>\<open>AgentBlockedError(agent_id, reason)\<close>, which keeps \<^verbatim>\<open>reason or "Agent is blocked"\<close>.\<close>

definition agent_blocked_error :: "string \<Rightarrow> pyval \<Rightarrow> exn" where
  "agent_blocked_error agent reason =
     AgentBlockedError agent (if py_truthy reason then reason else VStr ''Agent is blocked'')"

text \<open>
  \<^verbatim>\<open>conditions.get(key, float("inf"))\<close>: \<open>None\<close> stands for the default, infinity, which
  no number exceeds or reaches.
\<close>

definition get_or_inf :: "pyval \<Rightarrow> string \<Rightarrow> exn + pyval option" where
  "get_or_inf conditions key =
     (case conditions of
        VDict kvs \<Rightarrow> Inr (map_of kvs key)
      | _ \<Rightarrow> Inl (Exc ''AttributeError'' ''object has no attribute get''))"

text \<open>\<^verbatim>\<open>ObserveDecorator._estimate_typical_cost()\<close>.\<close>

definition estimate_typical_cost :: "observe_decorator \<Rightarrow> world \<Rightarrow> exn + rat" where
  "estimate_typical_cost d w =
     estimate_cost (custom_pricing w) (VStr (od_model_id d)) (VInt 500) (VInt 200)"

text \<open>
  The four branches of \<^verbatim>\<open>_evaluate_pre_invocation_policies\<close>: each gives the violation
  message, if there is one, or raises. The hour of the day is read from the wall clock,
  which counts microseconds.
\<close>

definition cost_cap_message ::
  "env \<Rightarrow> observe_decorator \<Rightarrow> pyval \<Rightarrow> world \<Rightarrow> exn + string option"
where
  "cost_cap_message e d conditions w =
     bind_exn (get_or_inf conditions ''max_cost_usd'') (\<lambda>max_cost.
     bind_exn (estimate_typical_cost d w) (\<lambda>estimated.
       case max_cost of
         None \<Rightarrow> Inr None
       | Some m \<Rightarrow>
           bind_exn (num_cmp (\<lambda>x y. y < x) estimated m) (\<lambda>exceeds.
             if exceeds then
               (case py_num m of
                  Some mv \<Rightarrow>
                    Inr (Some (''Estimated invocation cost $'' @ format_4f e estimated
                                 @ '' exceeds cap $'' @ format_4f e mv))
                | None \<Rightarrow> Inl (Exc ''TypeError'' ''unsupported format string''))
             else Inr None)))"

definition token_limit_message :: "env \<Rightarrow> pyval \<Rightarrow> exn + string option" where
  "token_limit_message e conditions =
     bind_exn (get_or_inf conditions ''max_tokens'') (\<lambda>max_tokens.
     bind_exn (py_get conditions ''estimated_input_tokens'' (VInt 0)) (\<lambda>estimated_input.
       if \<not> py_truthy estimated_input then Inr None
       else
         (case max_tokens of
            None \<Rightarrow>
              (case py_num estimated_input of
                 Some x \<Rightarrow> Inr None
               | None \<Rightarrow> Inl (Exc ''TypeError'' ''> not supported between instances''))
          | Some m \<Rightarrow>
              bind_exn (py_gt estimated_input m) (\<lambda>exceeds.
                if exceeds then
                  Inr (Some (''Estimated tokens '' @ py_str e estimated_input
                               @ '' exceeds limit '' @ py_str e m))
                else Inr None))))"

definition rate_limit_message ::
  "env \<Rightarrow> observe_decorator \<Rightarrow> pyval \<Rightarrow> world \<Rightarrow> (exn + string option) \<times> world"
where
  "rate_limit_message e d conditions w =
     (case get_or_inf conditions ''max_invocations'' of
        Inl x \<Rightarrow> (Inl x, w)
      | Inr max_invocations \<Rightarrow>
          (case py_get conditions ''window_minutes'' (VInt 60) of
             Inl x \<Rightarrow> (Inl x, w)
           | Inr window_minutes \<Rightarrow>
               (case py_mul window_minutes 60 of
                  Inl x \<Rightarrow> (Inl x, w)
                | Inr window_seconds \<Rightarrow>
                    (case count_in_window e (od_agent_id d) window_seconds w of
                       (Inl x, w1) \<Rightarrow> (Inl x, w1)
                     | (Inr count, w1) \<Rightarrow>
                         (case max_invocations of
                            None \<Rightarrow> (Inr None, w1)
                          | Some m \<Rightarrow>
                              (case num_cmp (\<lambda>x y. y \<le> x) (of_nat count) m of
                                 Inl x \<Rightarrow> (Inl x, w1)
                               | Inr reached \<Rightarrow>
                                   if reached then
                                     (Inr (Some (''Rate limit exceeded: ''
                                        @ py_str e (VInt (int count))
                                        @ '' invocations in last '' @ py_str e window_minutes
                                        @ '' minutes (limit: '' @ py_str e m @ '')'')), w1)
                                   else (Inr None, w1)))))))"

definition hour_of :: "int \<Rightarrow> int" where
  "hour_of micros = (micros div 3600000000) mod 24"

definition time_restriction_message ::
  "env \<Rightarrow> pyval \<Rightarrow> world \<Rightarrow> (exn + string option) \<times> world"
where
  "time_restriction_message e conditions w =
     (case bind_exn (py_get conditions ''allowed_hours_utc'' (VList [VInt 0, VInt 24]))
             (\<lambda>allowed_hours.
           bind_exn (py_len allowed_hours) (\<lambda>n.
           bind_exn (if 0 < n then py_index allowed_hours 0 else Inr (VInt 0))
             (\<lambda>allowed_start.
           bind_exn (if 1 < n then py_index allowed_hours 1 else Inr (VInt 24))
             (\<lambda>allowed_end. Inr (allowed_start, allowed_end))))) of
        Inl x \<Rightarrow> (Inl x, w)
      | Inr (allowed_start, allowed_end) \<Rightarrow>
          (let (now, w1) = read_utcnow e w;
               current_hour = hour_of now
           in case bind_exn (num_cmp (\<lambda>x y. y \<le> x) (of_int current_hour) allowed_start)
                     (\<lambda>after_start.
                        if after_start
                        then num_cmp (\<lambda>x y. x < y) (of_int current_hour) allowed_end
                        else Inr False) of
                Inl x \<Rightarrow> (Inl x, w1)
              | Inr inside \<Rightarrow>
                  if inside then (Inr None, w1)
                  else
                    (Inr (Some (''Invocation outside allowed hours: current=''
                       @ py_str e (VInt current_hour) @ '':00 UTC, allowed=''
                       @ py_str e allowed_start @ '':00-'' @ py_str e allowed_end
                       @ '':00 UTC'')), w1)))"

text \<open>
  One round of the loop of \<^verbatim>\<open>_evaluate_pre_invocation_policies\<close>: the violation of
  this policy as policy id, policy type and message, or \<open>None\<close> to go on with the next.
\<close>

definition evaluate_policy ::
  "env \<Rightarrow> observe_decorator \<Rightarrow> pyval \<Rightarrow> world
     \<Rightarrow> (exn + (pyval \<times> pyval \<times> string) option) \<times> world"
where
  "evaluate_policy e d policy w =
     (case bind_exn (py_get policy ''policy_type'' (VStr '''')) (\<lambda>policy_type.
           bind_exn (py_get policy ''conditions'' (VDict [])) (\<lambda>conditions.
           bind_exn (py_get policy ''enforcement'' (VStr ''BLOCK'')) (\<lambda>enforcement.
             Inr (policy_type, conditions, enforcement)))) of
        Inl x \<Rightarrow> (Inl x, w)
      | Inr (policy_type, conditions, enforcement) \<Rightarrow>
          if enforcement \<noteq> VStr ''BLOCK'' then (Inr None, w)
          else
            (case (if policy_type = VStr ''COST_CAP''
                     then (cost_cap_message e d conditions w, w)
                   else if policy_type = VStr ''TOKEN_LIMIT''
                     then (token_limit_message e conditions, w)
                   else if policy_type = VStr ''RATE_LIMIT''
                     then rate_limit_message e d conditions w
                   else if policy_type = VStr ''TIME_RESTRICTION''
                     then time_restriction_message e conditions w
                   else (Inr None, w)) of
               (Inl x, w1) \<Rightarrow> (Inl x, w1)
             | (Inr None, w1) \<Rightarrow> (Inr None, w1)
             | (Inr (Some msg), w1) \<Rightarrow>
                 if msg = [] then (Inr None, w1)
                 else
                   (case py_get policy ''policy_id'' (VStr ''unknown'') of
                      Inl x \<Rightarrow> (Inl x, w1)
                    | Inr pid \<Rightarrow> (Inr (Some (pid, policy_type, msg)), w1))))"

fun evaluate_policies ::
  "env \<Rightarrow> observe_decorator \<Rightarrow> pyval list \<Rightarrow> world
     \<Rightarrow> (exn + (pyval \<times> pyval \<times> string) option) \<times> world"
where
  "evaluate_policies e d [] w = (Inr None, w)"
| "evaluate_policies e d (policy # rest) w =
     (case evaluate_policy e d policy w of
        (Inl x, w1) \<Rightarrow> (Inl x, w1)
      | (Inr (Some v), w1) \<Rightarrow> (Inr (Some v), w1)
      | (Inr None, w1) \<Rightarrow> evaluate_policies e d rest w1)"

text \<open>\<^verbatim>\<open>ObserveDecorator._evaluate_pre_invocation_policies(policies)\<close>.\<close>

definition evaluate_pre_invocation_policies ::
  "env \<Rightarrow> observe_decorator \<Rightarrow> pyval \<Rightarrow> world
     \<Rightarrow> (exn + (pyval \<times> pyval \<times> string) option) \<times> world"
where
  "evaluate_pre_invocation_policies e d policies w =
     (case py_iter policies of
        Inl x \<Rightarrow> (Inl x, w)
      | Inr ps \<Rightarrow> evaluate_policies e d ps w)"

section \<open>decorators.py: the wrapper\<close>

text \<open>
  The kill switch check at the head of the wrapper: the exception it raises, if any.
  Without a status checker there is no check.
\<close>

definition kill_switch_check ::
  "env \<Rightarrow> observe_decorator \<Rightarrow> world \<Rightarrow> exn option \<times> world"
where
  "kill_switch_check e d w =
     (case od_status_checker d of
        None \<Rightarrow> (None, w)
      | Some ck \<Rightarrow>
          (case is_blocked e ck (od_agent_id d) w of
             ((blocked, reason), w1) \<Rightarrow>
               if blocked then (Some (agent_blocked_error (od_agent_id d) reason), w1)
               else (None, w1)))"

text \<open>
  The policy enforcement that follows: a violation is raised as
  \<^verbatim>\<open>PolicyViolationError\<close>, any other exception of the evaluation is swallowed.
\<close>

definition policy_check ::
  "env \<Rightarrow> observe_decorator \<Rightarrow> world \<Rightarrow> exn option \<times> world"
where
  "policy_check e d w =
     (case od_status_checker d of
        None \<Rightarrow> (None, w)
      | Some ck \<Rightarrow>
          (case get_policies e ck (od_agent_id d) w of
             (policies, w1) \<Rightarrow>
               (case evaluate_pre_invocation_policies e d policies w1 of
                  (Inl x, w2) \<Rightarrow> (None, w2)
                | (Inr None, w2) \<Rightarrow> (None, w2)
                | (Inr (Some (pid, ptype, msg)), w2) \<Rightarrow>
                    (Some (PolicyViolationError (od_agent_id d) pid ptype msg), w2))))"

text \<open>
  The \<^verbatim>\<open>finally\<close> block of the wrapper, given the outcome of the call of the function,
  the reference of the root span and the two readings taken before the call. Up to the
  construction of the event nothing is inside a \<^verbatim>\<open>try\<close> (but the fingerprint), so an
  exception of \<^verbatim>\<open>end_span\<close>, of \<^verbatim>\<open>estimate_cost\<close> or of the constructor of the event
  leaves the block; the recording of the invocation and the send are each inside one.
\<close>

definition wrapper_finally ::
  "env \<Rightarrow> observe_decorator \<Rightarrow> pyfunc \<Rightarrow> pyval list \<Rightarrow> (string \<times> pyval) list
     \<Rightarrow> exn + pyval \<Rightarrow> nat \<Rightarrow> int \<Rightarrow> rat \<Rightarrow> trace_context \<Rightarrow> world \<Rightarrow> (exn + unit) \<times> world"
where
  "wrapper_finally e d func args kwargs outcome root_span started start_time tc w =
     (let result = (case outcome of Inr v \<Rightarrow> v | Inl x \<Rightarrow> VNone);
          failed = (case outcome of Inr v \<Rightarrow> False | Inl x \<Rightarrow> True);
          error_message = (case outcome of
                             Inr v \<Rightarrow> None
                           | Inl x \<Rightarrow> Some (py_slice_to 500 (exn_str e x)));
          error_type = (case outcome of Inr v \<Rightarrow> None | Inl x \<Rightarrow> Some (exn_name x));
          (ended, w1) = read_utcnow e w;
          (now, w2) = read_monotonic e w1;
          duration = py_int ((now - start_time) * 1000);
          (itok, otok) = extract_tokens result;
          found = extract_model_id result;
          mid = (if py_truthy found then found else VStr (od_model_id d))
      in case end_span e root_span None (if failed then ''ERROR'' else ''OK'') error_message
                itok otok mid tc w2 of
           (Inl x, tc1, w3) \<Rightarrow> (Inl x, w3)
         | (Inr u, tc1, w3) \<Rightarrow>
             (case extract_bedrock_trace e result tc1 w3 of
                (tc2, w4) \<Rightarrow>
                  (let tool_names = map name (filter (\<lambda>s. span_type s = ''tool'')
                                                (to_dicts tc2));
                       prompt_text = extract_prompt_text args kwargs (sig_parameters func);
                       (fp, summary) =
                         (case prompt_text of
                            Some p \<Rightarrow>
                              if p \<noteq> []
                              then (Some (compute_fingerprint e (map L1 p)),
                                    Some (py_slice_to 500 p))
                              else (None, None)
                          | None \<Rightarrow> (None, None))
                   in case estimate_cost (custom_pricing w4) mid itok otok of
                        Inl x \<Rightarrow> (Inl x, w4)
                      | Inr cost \<Rightarrow>
                          (case new_telemetry_event e
                                  \<lparr>kw_event_type = (if failed then ''invocation.failed''
                                                    else ''invocation.completed''),
                                   kw_api_key = od_api_key d, kw_agent_id = od_agent_id d,
                                   kw_agent_name = od_agent_name d, kw_model_id = mid,
                                   kw_region = detect_region e, kw_started_at = started,
                                   kw_ended_at = ended, kw_duration_ms = duration,
                                   kw_input_tokens = itok, kw_output_tokens = otok,
                                   kw_estimated_cost_usd = cost,
                                   kw_status = (if failed then ''FAILURE'' else ''SUCCESS''),
                                   kw_error_message = error_message,
                                   kw_error_type = error_type,
                                   kw_tools_called = tool_names,
                                   kw_prompt_summary = summary,
                                   kw_prompt_fingerprint = fp, kw_spans = to_dicts tc2,
                                   kw_sdk_version = od_sdk_version d\<rparr> w4 of
                             (Inl x, w5) \<Rightarrow> (Inl x, w5)
                           | (Inr event, w5) \<Rightarrow>
                               (Inr (), snd (od_transport d event
                                               (record_invocation e (od_agent_id d) w5)))))))"

text \<open>
  The wrapper after the two checks: the trace context and its root span, the trace as
  keyword argument for a function that has a parameter of that name, the two readings,
  the call, and the \<^verbatim>\<open>finally\<close> block. An exception of the block takes the place of
  what the call returned or raised.
\<close>

definition invoke ::
  "env \<Rightarrow> observe_decorator \<Rightarrow> pyfunc \<Rightarrow> pyval list \<Rightarrow> (string \<times> pyval) list \<Rightarrow> world
     \<Rightarrow> (exn + pyval) \<times> world"
where
  "invoke e d func args kwargs w =
     (case new_trace_context e w of
        (tc0, w1) \<Rightarrow>
          (case start_span e (fn_name func) ''chain'' None VNone tc0 w1 of
             (Inl x, tc1, w2) \<Rightarrow> (Inl x, w2)
           | (Inr root_span, tc1, w2) \<Rightarrow>
               (let kwargs1 = (if ''trace'' \<in> set (sig_parameters func)
                               then dict_set kwargs ''trace'' VTrace else kwargs);
                    (started, w3) = read_utcnow e w2;
                    (start_time, w4) = read_monotonic e w3
                in case py_call func args kwargs1 tc1 w4 of
                     (outcome, tc2, w5) \<Rightarrow>
                       (case wrapper_finally e d func args kwargs1 outcome root_span started
                               start_time tc2 w5 of
                          (Inl x, w6) \<Rightarrow> (Inl x, w6)
                        | (Inr u, w6) \<Rightarrow> (outcome, w6)))))"

text \<open>The function that \<^verbatim>\<open>ObserveDecorator.__call__(func)\<close> returns.\<close>

definition wrapper ::
  "env \<Rightarrow> observe_decorator \<Rightarrow> pyfunc \<Rightarrow> pyval list \<Rightarrow> (string \<times> pyval) list \<Rightarrow> world
     \<Rightarrow> (exn + pyval) \<times> world"
where
  "wrapper e d func args kwargs w =
     (case kill_switch_check e d w of
        (Some x, w1) \<Rightarrow> (Inl x, w1)
      | (None, w1) \<Rightarrow>
          (case policy_check e d w1 of
             (Some x, w2) \<Rightarrow> (Inl x, w2)
           | (None, w2) \<Rightarrow> invoke e d func args kwargs w2))"


section \<open>client.py: \<^verbatim>\<open>trace_tool\<close>\<close>

text \<open>
  \<^verbatim>\<open>tool_name = name or func.__name__\<close>, and
  \<^verbatim>\<open>client.trace_tool(name, span_type)(func)\<close> called with \<^verbatim>\<open>*args, **kwargs\<close>. The
  wrapper reads \<^verbatim>\<open>kwargs.get("trace")\<close>; unless that is the trace context it calls the
  function and returns what the call returns. Otherwise the same call runs within
  \<^verbatim>\<open>trace.span(tool_name, span_type=span_type)\<close>, and the span's output is set from a
  result that is not \<^verbatim>\<open>None\<close>. In both cases the function is called with the positional
  and keyword arguments that the wrapper was called with.
\<close>

definition tool_name_of :: "string option \<Rightarrow> pyfunc \<Rightarrow> string" where
  "tool_name_of name_opt func =
     (case name_opt of
        Some n \<Rightarrow> if n \<noteq> [] then n else fn_name func
      | None \<Rightarrow> fn_name func)"

definition trace_tool ::
  "env \<Rightarrow> string option \<Rightarrow> string \<Rightarrow> pyfunc \<Rightarrow> pyval list \<Rightarrow> (string \<times> pyval) list
     \<Rightarrow> trace_context \<Rightarrow> world \<Rightarrow> (exn + pyval) \<times> trace_context \<times> world"
where
  "trace_tool e name_opt st func args kwargs tc w =
     (let tool_name = tool_name_of name_opt func;
          trace = dict_get kwargs ''trace'' VNone
      in if trace \<noteq> VTrace then py_call func args kwargs tc w
         else
           with_span e tool_name st None VNone
             (\<lambda>s tc1 w1.
                case py_call func args kwargs tc1 w1 of
                  (Inl x, tc2, w2) \<Rightarrow> (Inl x, tc2, w2)
                | (Inr result, tc2, w2) \<Rightarrow>
                    (Inr result,
                     tc2\<lparr>objs := (objs tc2)
                            (s := (objs tc2 s)\<lparr>span_output :=
                                   (if result \<noteq> VNone
                                    then Some (py_slice_to 2000 (py_str e result))
                                    else None)\<rparr>)\<rparr>,
                     w2))
             tc w)"

section \<open>Example environment and states\<close>

text \<open>
  A concrete environment (a clock that ticks once per reading, distinct uuids, a status
  endpoint that is unreachable), an empty process state, and a trace context that is
  full, used to instantiate the properties below.
\<close>

definition full_trace :: trace_context where
  "full_trace = \<lparr>objs = (\<lambda>_. blank_span), next_ref = 100, spans = [0 ..< 100],
                  active_stack = [''root-id''], start_mono = 0\<rparr>"

text \<open>
  An environment for the examples. Its digest of a string writes every character as two,
  so that no two strings have the same digest.
\<close>

fun digest_char :: "uchar \<Rightarrow> string" where
  "digest_char (L1 c) = [CHR ''0'', c]"
| "digest_char U0130 = ''10''"
| "digest_char U0307 = ''11''"

definition digest0 :: "ustring \<Rightarrow> string" where
  "digest0 s = concat (map digest_char s)"

definition env0 :: env where
  "env0 = \<lparr>monotonic = (\<lambda>k. of_nat k), utcnow = (\<lambda>k. int k * 1000),
           uuid4 = (\<lambda>k. ''uuid-'' @ replicate k (CHR ''i'')),
           httpx_get = (\<lambda>k a. GetRaises), sha256_hex = digest0,
           py_str = (\<lambda>v. case v of VStr s \<Rightarrow> s | _ \<Rightarrow> []), format_4f = (\<lambda>r. ''''), aws_default_region = None\<rparr>"

definition world0 :: world where
  "world0 = \<lparr>mono_reads = 0, wall_reads = 0, uuid_draws = 0, http_gets = [],
             status_cache = (\<lambda>_. None), rate_counts = (\<lambda>_. None), custom_pricing = [],
             event_queue = [], user_calls = 0\<rparr>"

text \<open>
  A status checker with the default TTL, and environments in which the status endpoint
  answers every GET with a given status code and body.
\<close>

definition checker0 :: status_checker where
  "checker0 = \<lparr>ck_endpoint_url = ''https://api.invokelens.com'', ck_api_key = ''il_live_abc123'',
               ck_ttl = DEFAULT_STATUS_TTL_SECONDS\<rparr>"

definition blocked_body :: pyval where
  "blocked_body = VDict [(''status'', VStr ''BLOCKED''), (''blocked_reason'', VStr ''manual'')]"

definition env_status :: "int \<Rightarrow> pyval option \<Rightarrow> env" where
  "env_status code body = env0\<lparr>httpx_get := (\<lambda>k agent. GetResponse code body)\<rparr>"

definition env_ok :: env where
  "env_ok = env_status 200 (Some blocked_body)"

text \<open>
  Two tools: \<^verbatim>\<open>def search(query)\<close> and \<^verbatim>\<open>def search_traced(query, trace=None)\<close>, both
  returning \<^verbatim>\<open>"found"\<close>; and the trace context of an invocation that has just begun.
\<close>

definition search :: pyfunc where
  "search = \<lparr>fn_name = ''search'',
              fn_params = [\<lparr>p_name = ''query'', p_kind = PositionalOrKeyword,
                            p_has_default = False\<rparr>],
              fn_body = (\<lambda>args kwargs tc w. (Inr (VStr ''found''), tc, w))\<rparr>"

definition search_traced :: pyfunc where
  "search_traced = \<lparr>fn_name = ''search_traced'',
              fn_params = [\<lparr>p_name = ''query'', p_kind = PositionalOrKeyword,
                            p_has_default = False\<rparr>,
                           \<lparr>p_name = ''trace'', p_kind = PositionalOrKeyword,
                            p_has_default = True\<rparr>],
              fn_body = (\<lambda>args kwargs tc w. (Inr (VStr ''found''), tc, w))\<rparr>"

definition trace0 :: trace_context where
  "trace0 = \<lparr>objs = (\<lambda>_. blank_span), next_ref = 0, spans = [], active_stack = [],
              start_mono = 0\<rparr>"



text \<open>
  A client with the kill switch enabled and the default queue of 1000 events, its
  decorator for the agent \<open>agent-1\<close>, and a function \<^verbatim>\<open>def ask_agent(prompt)\<close> that
  returns \<^verbatim>\<open>"ok"\<close>.
\<close>

definition decorator0 :: observe_decorator where
  "decorator0 = observe_decorator_init (send 1000) ''agent-1'' (Some ''Support Bot'') None
                  ''il_live_abc123'' ''0.1.0'' (Some checker0)"

definition ask_agent :: pyfunc where
  "ask_agent = \<lparr>fn_name = ''ask_agent'',
                 fn_params = [\<lparr>p_name = ''prompt'', p_kind = PositionalOrKeyword,
                               p_has_default = False\<rparr>],
                 fn_body = (\<lambda>args kwargs tc w. (Inr (VStr ''ok''), tc, w))\<rparr>"




text \<open>A state in which the agent is cached as blocked.\<close>

definition world_blocked :: world where
  "world_blocked = world0\<lparr>status_cache := (\<lambda>_. None)(''agent-1'' :=
                      Some \<lparr>ce_status = VStr ''BLOCKED'', ce_blocked_reason = VStr ''manual'',
                            ce_policies = VList [], ce_expires_at = 10\<rparr>)\<rparr>"

text \<open>
  A client without kill switch whose transport raises on every send, and a function that
  returns a response whose token counts are strings.
\<close>

definition failing_send :: "telemetry_event \<Rightarrow> world \<Rightarrow> (exn + unit) \<times> world" where
  "failing_send event w = (Inl (Exc ''RuntimeError'' ''transport is down''), w)"

definition decorator_plain :: observe_decorator where
  "decorator_plain = observe_decorator_init failing_send ''agent-1'' None None
                       ''il_live_abc123'' ''0.1.0'' None"

definition usage_response :: pyval where
  "usage_response = VDict [(''usage'', VDict [(''inputTokens'', VStr ''12''),
                                              (''outputTokens'', VStr ''34'')])]"

definition usage_agent :: pyfunc where
  "usage_agent = \<lparr>fn_name = ''usage_agent'',
                   fn_params = [\<lparr>p_name = ''prompt'', p_kind = PositionalOrKeyword,
                                 p_has_default = False\<rparr>],
                   fn_body = (\<lambda>args kwargs tc w. (Inr usage_response, tc, w))\<rparr>"

section \<open>Properties of the truncation\<close>

lemma suffix_marker_cut:
  "suffix ''...[truncated]'' (take n s @ ''...[truncated]'')"
  by (rule suffixI) simp

text \<open>
  Claim C7, as amended. For every string \<open>s\<close> the stored value \<open>_truncate(s)\<close> has at
  most \<open>MAX_IO_LENGTH = 2000\<close> characters; when \<open>s\<close> is longer than 2000 characters the
  stored value has exactly 2000 characters and ends with the marker \<open>...[truncated]\<close>;
  when \<open>s\<close> has at most 2000 characters it is stored unchanged. Hence the stored value ends
  with the marker exactly when truncation occurred or \<open>s\<close> itself already ended with the
  marker.
\<close>

theorem truncate_length_and_marker:
  "\<exists>r. truncate_text (Some s) = Some r
     \<and> length r \<le> MAX_IO_LENGTH
     \<and> MAX_IO_LENGTH = 2000
     \<and> (MAX_IO_LENGTH < length s \<longrightarrow>
          length r = MAX_IO_LENGTH \<and> suffix ''...[truncated]'' r)
     \<and> (length s \<le> MAX_IO_LENGTH \<longrightarrow> r = s)
     \<and> (suffix ''...[truncated]'' r \<longleftrightarrow>
          MAX_IO_LENGTH < length s \<or> suffix ''...[truncated]'' s)"
  by (auto simp: truncate_text_def truncate_max_def MAX_IO_LENGTH_def py_slice_to_def
           intro: suffix_marker_cut)

theorem truncate_length_and_marker_witness:
  "\<exists>r. truncate_text (Some (replicate 2001 (CHR ''x''))) = Some r
     \<and> length r = 2000 \<and> suffix ''...[truncated]'' r"
  using truncate_length_and_marker [of "replicate 2001 (CHR ''x'')"]
  by (auto simp: MAX_IO_LENGTH_def)

text \<open>
  The claim as stated fails: the input \<open>...[truncated]\<close> is 14 characters long, is stored
  unchanged, and so ends with the marker although nothing was truncated.
\<close>

theorem truncate_marker_iff_counterexample:
  "\<not> (suffix ''...[truncated]'' (the (truncate_text (Some ''...[truncated]'')))
        \<longleftrightarrow> MAX_IO_LENGTH < length ''...[truncated]'')"
  by (simp add: truncate_text_def truncate_max_def MAX_IO_LENGTH_def)

section \<open>Properties of the HTTP flush\<close>

lemma attempts_list: "[0 ..< MAX_RETRIES + 1] = [0, 1, 2, 3]"
  by (simp add: MAX_RETRIES_def upt_rec)

lemma flush_attempts_stop:
  assumes "\<forall>j \<in> set pre. retryable (srv j)" "srv k = Response c" "400 \<le> c" "c < 500"
  shows "post_count (flush_attempts srv b (pre @ k # rest) bo) = length pre + 1
       \<and> last (flush_attempts srv b (pre @ k # rest) bo) = WarnRejected c"
  using assms(1)
proof (induction pre arbitrary: bo)
  case Nil
  then show ?case using assms(2-) by (simp add: post_count_def)
next
  case (Cons a pre)
  then have IH: "\<And>bo. post_count (flush_attempts srv b (pre @ k # rest) bo) = length pre + 1
       \<and> last (flush_attempts srv b (pre @ k # rest) bo) = WarnRejected c"
    and r: "retryable (srv a)" by simp_all
  have ne: "\<And>bo. flush_attempts srv b (pre @ k # rest) bo \<noteq> []"
    by (cases pre) simp_all
  show ?case
  proof (cases "srv a")
    case (Response code)
    with r have "500 \<le> code" by (simp add: retryable_def)
    with Response IH ne show ?thesis by (simp add: post_count_def)
  next
    case TransportError
    with IH ne show ?thesis by (simp add: post_count_def)
  qed
qed

lemma flush_no_retry_after_4xx:
  assumes "k \<le> MAX_RETRIES" "\<forall>j<k. retryable (srv j)" "srv k = Response c" "400 \<le> c" "c < 500"
  shows "post_count (flush_http srv b) = k + 1 \<and> last (flush_http srv b) = WarnRejected c"
proof -
  have split: "[0 ..< MAX_RETRIES + 1] = [0 ..< k] @ k # [k + 1 ..< MAX_RETRIES + 1]"
  proof -
    from assms(1) have "k = 0 \<or> k = 1 \<or> k = 2 \<or> k = 3"
      unfolding MAX_RETRIES_def by arith
    then show ?thesis by (auto simp: MAX_RETRIES_def upt_rec)
  qed
  have "\<forall>j \<in> set [0 ..< k]. retryable (srv j)" using assms(2) by simp
  from flush_attempts_stop [OF this assms(3-5), of b "[k + 1 ..< MAX_RETRIES + 1]"
      INITIAL_BACKOFF_SECONDS]
  show ?thesis unfolding flush_http_def split by simp
qed

lemma flush_traffic_shapes:
  "traffic (flush_http srv b) \<in>
     {[Post b],
      [Post b, Sleep 1, Post b],
      [Post b, Sleep 1, Post b, Sleep 2, Post b],
      [Post b, Sleep 1, Post b, Sleep 2, Post b, Sleep 4, Post b]}"
  unfolding flush_http_def attempts_list
  by (auto simp: traffic_def MAX_RETRIES_def INITIAL_BACKOFF_SECONDS_def
        BACKOFF_MULTIPLIER_def split: http_result.splits)

lemma flush_post_bound: "post_count (flush_http srv b) \<le> MAX_RETRIES + 1"
  unfolding flush_http_def attempts_list
  by (auto simp: post_count_def MAX_RETRIES_def split: http_result.splits)

lemma flush_first_4xx:
  assumes "srv 0 = Response c" "400 \<le> c" "c < 500"
  shows "flush_http srv b = [Post b, WarnRejected c]"
  unfolding flush_http_def attempts_list using assms by simp

text \<open>
  Claim C4. For any batch and any behaviour \<open>srv\<close> of the server (a status code or an
  exception at each attempt), a flush makes at most \<open>MAX_RETRIES + 1 = 4\<close> POST attempts;
  its network traffic is one of: one POST; POST, sleep 1, POST; POST, sleep 1, POST,
  sleep 2, POST; POST, sleep 1, POST, sleep 2, POST, sleep 4, POST; so the sleeps between
  consecutive attempts are exactly 1, then 2, then 4 seconds. A 4xx response is never
  retried: when the attempts before attempt \<open>k\<close> were all retried and attempt \<open>k\<close> gets a
  4xx response, the flush makes \<open>k + 1\<close> POSTs and ends with the rejection warning; in
  particular a 4xx response to the first attempt gives exactly one POST.
\<close>

theorem flush_http_retry_bound:
  "post_count (flush_http srv batch) \<le> MAX_RETRIES + 1
   \<and> MAX_RETRIES + 1 = 4
   \<and> traffic (flush_http srv batch) \<in>
       {[Post batch],
        [Post batch, Sleep 1, Post batch],
        [Post batch, Sleep 1, Post batch, Sleep 2, Post batch],
        [Post batch, Sleep 1, Post batch, Sleep 2, Post batch, Sleep 4, Post batch]}
   \<and> (\<forall>k c. k \<le> MAX_RETRIES \<and> (\<forall>j<k. retryable (srv j))
          \<and> srv k = Response c \<and> 400 \<le> c \<and> c < 500 \<longrightarrow>
        post_count (flush_http srv batch) = k + 1
        \<and> last (flush_http srv batch) = WarnRejected c)
   \<and> (\<forall>c. srv 0 = Response c \<and> 400 \<le> c \<and> c < 500 \<longrightarrow>
        flush_http srv batch = [Post batch, WarnRejected c]
        \<and> post_count (flush_http srv batch) = 1)"
proof (intro conjI allI impI)
  show "post_count (flush_http srv batch) \<le> MAX_RETRIES + 1"
    by (rule flush_post_bound)
  show "MAX_RETRIES + 1 = 4"
    by (simp add: MAX_RETRIES_def)
  show "traffic (flush_http srv batch) \<in>
       {[Post batch],
        [Post batch, Sleep 1, Post batch],
        [Post batch, Sleep 1, Post batch, Sleep 2, Post batch],
        [Post batch, Sleep 1, Post batch, Sleep 2, Post batch, Sleep 4, Post batch]}"
    by (rule flush_traffic_shapes)
next
  fix k c
  assume h: "k \<le> MAX_RETRIES \<and> (\<forall>j<k. retryable (srv j))
          \<and> srv k = Response c \<and> 400 \<le> c \<and> c < 500"
  then have "post_count (flush_http srv batch) = k + 1
        \<and> last (flush_http srv batch) = WarnRejected c"
    by (intro flush_no_retry_after_4xx) simp_all
  then show "post_count (flush_http srv batch) = k + 1"
    and "last (flush_http srv batch) = WarnRejected c" by simp_all
next
  fix c
  assume h: "srv 0 = Response c \<and> 400 \<le> c \<and> c < 500"
  then show first: "flush_http srv batch = [Post batch, WarnRejected c]"
    by (intro flush_first_4xx) simp_all
  then show "post_count (flush_http srv batch) = 1"
    by (simp add: post_count_def)
qed

theorem flush_http_retry_bound_witness:
  "post_count (flush_http (\<lambda>n. if n = 0 then Response 503 else Response 404) [''e1'', ''e2'']) = 2
   \<and> flush_http (\<lambda>n. Response 404) [''e1'', ''e2''] = [Post [''e1'', ''e2''], WarnRejected 404]
   \<and> post_count (flush_http (\<lambda>n. Response 404) [''e1'', ''e2'']) = 1"
proof -
  let ?srv = "\<lambda>n::nat. if n = 0 then Response 503 else Response 404"
  note T1 = flush_http_retry_bound [of ?srv "[''e1'', ''e2'']"]
  note T2 = flush_http_retry_bound [of "\<lambda>n. Response 404" "[''e1'', ''e2'']"]
  have "post_count (flush_http ?srv [''e1'', ''e2'']) = 1 + 1"
    by (rule T1 [THEN conjunct2, THEN conjunct2, THEN conjunct2, THEN conjunct1,
          THEN spec [where x = 1], THEN spec [where x = 404], THEN mp, THEN conjunct1])
       (simp add: retryable_def MAX_RETRIES_def)
  moreover have "flush_http (\<lambda>n. Response 404) [''e1'', ''e2''] = [Post [''e1'', ''e2''], WarnRejected 404]
     \<and> post_count (flush_http (\<lambda>n. Response 404) [''e1'', ''e2'']) = 1"
    by (rule T2 [THEN conjunct2, THEN conjunct2, THEN conjunct2, THEN conjunct2,
          THEN spec [where x = 404], THEN mp]) simp
  ultimately show ?thesis by (simp add: post_count_def)
qed

section \<open>Properties of the trace context\<close>

lemma new_span_ok:
  assumes "st \<in> set SPAN_TYPES" "is_optional_str mid"
  shows "\<exists>s w'. new_span e nm st parent inp mid w = (Inr s, w')
           \<and> span_id s = uuid4 e (uuid_draws w) \<and> parent_span_id s = parent"
  using assms by (simp add: new_span_def draw_uuid4_def read_utcnow_def Let_def)

lemma end_span_frame:
  assumes "end_span e r outp st err itok otok mid tc w = (res, tc2, w2)"
  shows "spans tc2 = spans tc
       \<and> (\<forall>r'. r' \<noteq> r \<longrightarrow> objs tc2 r' = objs tc r')
       \<and> (active_stack tc2 = active_stack tc
          \<or> (active_stack tc \<noteq> [] \<and> last (active_stack tc) = span_id (objs tc r)))"
  using assms
  by (auto simp: end_span_def read_utcnow_def Let_def split: if_splits sum.splits)

lemma to_dicts_frame:
  assumes "spans tc2 = spans tc" "\<forall>r' \<in> set (spans tc). objs tc2 r' = objs tc r'"
  shows "to_dicts tc2 = to_dicts tc"
  using assms by (simp add: to_dicts_def)

text \<open>
  Claim C10. Let a trace context store \<open>MAX_SPANS_PER_TRACE = 100\<close> spans (or more), with
  every stored reference allocated earlier, and let the uuid drawn for the new span be
  none of the ids on the active stack. Then \<open>start_span\<close> with a valid type returns a
  span object that is not in the stored list and whose \<open>parent_span_id\<close> is \<open>None\<close>,
  also when the active stack is not empty; the stored list, the stored spans themselves
  and the active stack are unchanged. Whatever \<open>end_span\<close> is then called with on that
  span, and whether it returns or raises, the stored list, the stored spans and the
  active stack are still unchanged: only the detached span object is written.
\<close>

theorem detached_span_frame:
  assumes full: "MAX_SPANS_PER_TRACE \<le> length (spans tc)"
    and wf: "\<forall>r \<in> set (spans tc). r < next_ref tc"
    and valid: "st \<in> set SPAN_TYPES" "is_optional_str mid"
    and fresh: "uuid4 e (uuid_draws w) \<notin> set (active_stack tc)"
  shows "\<exists>r tc1 w1.
           start_span e nm st inp mid tc w = (Inr r, tc1, w1)
         \<and> parent_span_id (objs tc1 r) = None
         \<and> r \<notin> set (spans tc)
         \<and> spans tc1 = spans tc
         \<and> active_stack tc1 = active_stack tc
         \<and> (\<forall>r'. r' \<noteq> r \<longrightarrow> objs tc1 r' = objs tc r')
         \<and> to_dicts tc1 = to_dicts tc
         \<and> (\<forall>outp st' err itok otok mid' res tc2 w2.
               end_span e r outp st' err itok otok mid' tc1 w1 = (res, tc2, w2) \<longrightarrow>
                 spans tc2 = spans tc
               \<and> active_stack tc2 = active_stack tc
               \<and> (\<forall>r'. r' \<noteq> r \<longrightarrow> objs tc2 r' = objs tc r')
               \<and> to_dicts tc2 = to_dicts tc)"
proof -
  from new_span_ok [OF valid, of e nm None "truncate_text inp" w]
  obtain s w' where ns: "new_span e nm st None (truncate_text inp) mid w = (Inr s, w')"
    and sid: "span_id s = uuid4 e (uuid_draws w)" and par: "parent_span_id s = None"
    by blast
  let ?r = "next_ref tc"
  let ?tc1 = "tc\<lparr>objs := (objs tc)(?r := s), next_ref := ?r + 1\<rparr>"
  have st: "start_span e nm st inp mid tc w = (Inr ?r, ?tc1, w')"
    using full ns by (simp add: start_span_def)
  have notin: "?r \<notin> set (spans tc)" using wf by auto
  have d1: "to_dicts ?tc1 = to_dicts tc"
    using notin by (intro to_dicts_frame) auto
  have after: "spans tc2 = spans tc \<and> active_stack tc2 = active_stack tc
               \<and> (\<forall>r'. r' \<noteq> ?r \<longrightarrow> objs tc2 r' = objs tc r') \<and> to_dicts tc2 = to_dicts tc"
    if en: "end_span e ?r outp st' err itok otok mid' ?tc1 w' = (res, tc2, w2)"
    for outp st' err itok otok mid' res tc2 w2
  proof -
    from end_span_frame [OF en]
    have a: "spans tc2 = spans tc"
      and b: "\<forall>r'. r' \<noteq> ?r \<longrightarrow> objs tc2 r' = objs tc r'"
      and c: "active_stack tc2 = active_stack tc
          \<or> (active_stack tc \<noteq> [] \<and> last (active_stack tc) = span_id s)"
      by simp_all
    from c fresh sid have c': "active_stack tc2 = active_stack tc"
      by (metis last_in_set)
    have "\<forall>r' \<in> set (spans tc). objs tc2 r' = objs tc r'"
    proof
      fix r' assume "r' \<in> set (spans tc)"
      with notin have "r' \<noteq> ?r" by blast
      with b show "objs tc2 r' = objs tc r'" by blast
    qed
    with a have "to_dicts tc2 = to_dicts tc"
      by (rule to_dicts_frame)
    with a b c' show ?thesis by simp
  qed
  show ?thesis
    using st par notin d1 after by (intro exI [of _ ?r] exI [of _ ?tc1] exI [of _ w']) simp
qed

theorem detached_span_frame_witness:
  "\<exists>r tc1 w1. start_span env0 ''overflow'' ''tool'' None VNone full_trace world0 = (Inr r, tc1, w1)
     \<and> parent_span_id (objs tc1 r) = None
     \<and> spans tc1 = [0 ..< 100] \<and> active_stack tc1 = [''root-id'']
     \<and> spans (fst (snd (end_span env0 r None ''OK'' None (VInt 0) (VInt 0) VNone tc1 w1))) = [0 ..< 100]
     \<and> active_stack (fst (snd (end_span env0 r None ''OK'' None (VInt 0) (VInt 0) VNone tc1 w1))) = [''root-id'']"
proof -
  have h: "MAX_SPANS_PER_TRACE \<le> length (spans full_trace)"
     "\<forall>r \<in> set (spans full_trace). r < next_ref full_trace"
     "''tool'' \<in> set SPAN_TYPES" "is_optional_str VNone"
     "uuid4 env0 (uuid_draws world0) \<notin> set (active_stack full_trace)"
    by (simp_all add: full_trace_def MAX_SPANS_PER_TRACE_def SPAN_TYPES_def env0_def world0_def)
  from detached_span_frame [OF h, of "''overflow''" None]
  obtain r tc1 w1 where
    a: "start_span env0 ''overflow'' ''tool'' None VNone full_trace world0 = (Inr r, tc1, w1)"
    and b: "parent_span_id (objs tc1 r) = None" "spans tc1 = spans full_trace"
       "active_stack tc1 = active_stack full_trace"
    and c0: "\<forall>outp st' err itok otok mid' res tc2 w2.
               end_span env0 r outp st' err itok otok mid' tc1 w1 = (res, tc2, w2) \<longrightarrow>
                 spans tc2 = spans full_trace
               \<and> active_stack tc2 = active_stack full_trace
               \<and> (\<forall>r'. r' \<noteq> r \<longrightarrow> objs tc2 r' = objs full_trace r')
               \<and> to_dicts tc2 = to_dicts full_trace"
    by (elim exE conjE) 
  have c: "spans tc2 = spans full_trace \<and> active_stack tc2 = active_stack full_trace"
    if "end_span env0 r outp st' err itok otok mid' tc1 w1 = (res, tc2, w2)"
    for outp st' err itok otok mid' res tc2 w2
    using c0 that by blast
  obtain res tc2 w2 where
    d: "end_span env0 r None ''OK'' None (VInt 0) (VInt 0) VNone tc1 w1 = (res, tc2, w2)"
    by (metis prod_cases3)
  from c [OF d] a b d show ?thesis by (simp add: full_trace_def)
qed

section \<open>Properties of the status checker\<close>

lemma fetch_and_cache_non200:
  assumes "httpx_get e (length (http_gets w)) agent = GetResponse code body" "code \<noteq> 200"
  shows "fetch_and_cache e ck agent w =
      (Inr (), w\<lparr>http_gets := http_gets w @ [agent], mono_reads := mono_reads w + 1,
                status_cache := (status_cache w)(agent :=
                   Some \<lparr>ce_status = VStr ''ACTIVE'', ce_blocked_reason = VNone,
                         ce_policies = VList [],
                         ce_expires_at = monotonic e (mono_reads w) + ck_ttl ck\<rparr>)\<rparr>)"
  using assms by (simp add: fetch_and_cache_def fetch_status_def read_monotonic_def Let_def)

lemma fetch_and_cache_200:
  assumes "httpx_get e (length (http_gets w)) agent = GetResponse 200 (Some (VDict kvs))"
  shows "fetch_and_cache e ck agent w =
      (Inr (), w\<lparr>http_gets := http_gets w @ [agent], mono_reads := mono_reads w + 1,
                status_cache := (status_cache w)(agent :=
                   Some \<lparr>ce_status = dict_get kvs ''status'' (VStr ''ACTIVE''),
                         ce_blocked_reason = dict_get kvs ''blocked_reason'' VNone,
                         ce_policies = dict_get kvs ''policies'' (VList []),
                         ce_expires_at = monotonic e (mono_reads w) + ck_ttl ck\<rparr>)\<rparr>)"
  using assms
  by (simp add: fetch_and_cache_def fetch_status_def read_monotonic_def Let_def py_get_def)

lemma fetch_and_cache_error:
  assumes "\<not> fetch_ok (httpx_get e (length (http_gets w)) agent)"
  shows "\<exists>x. fetch_and_cache e ck agent w = (Inl x, w\<lparr>http_gets := http_gets w @ [agent]\<rparr>)"
proof (cases "httpx_get e (length (http_gets w)) agent")
  case GetRaises
  then show ?thesis by (simp add: fetch_and_cache_def fetch_status_def Let_def)
next
  case (GetResponse code body)
  with assms have c: "code = 200" and b: "case body of Some (VDict _) \<Rightarrow> False | _ \<Rightarrow> True"
    by (auto split: option.splits pyval.splits)
  show ?thesis
  proof (cases body)
    case None
    with GetResponse c show ?thesis by (simp add: fetch_and_cache_def fetch_status_def Let_def)
  next
    case (Some d)
    with b have "\<And>k dflt. \<exists>x. py_get d k dflt = Inl x"
      by (cases d) (simp_all add: py_get_def)
    then obtain x where "py_get d ''status'' (VStr ''ACTIVE'') = Inl x" by blast
    with GetResponse c Some show ?thesis
      by (simp add: fetch_and_cache_def fetch_status_def Let_def)
  qed
qed

lemma same_effect: "snd (get_policies e ck agent w) = snd (is_blocked e ck agent w)"
  by (auto simp: get_policies_def is_blocked_def get_policies_miss_def is_blocked_miss_def Let_def
       split: option.splits prod.splits sum.splits)

lemma is_blocked_stale:
  assumes "stale e agent w"
  shows "is_blocked e ck agent w =
         is_blocked_miss e ck agent (w\<lparr>mono_reads := insert_reading agent w\<rparr>)"
  using assms
  by (auto simp: stale_def insert_reading_def is_blocked_def read_monotonic_def Let_def
      split: option.splits)

text \<open>
  Claim C5, as the code has it. On a cache miss or expiry (no entry for the agent, or the clock
  reading is not before the entry's \<open>expires_at\<close>), \<open>is_blocked\<close> performs exactly one
  GET of the status endpoint, and \<open>get_policies\<close> has the same effect on the state. If
  the status code is exactly 200 and the body is a JSON object, its \<open>status\<close>,
  \<open>blocked_reason\<close> and \<open>policies\<close> (defaults \<open>ACTIVE\<close>, \<open>None\<close>, \<open>[]\<close>) are cached
  with expiry \<open>now + TTL\<close>, \<open>now\<close> being the clock reading taken at the insertion. For
  every other status code (the other 2xx codes included) the entry
  \<open>{ACTIVE, None, []}\<close> is cached for the TTL. When the GET raises or the body of a 200
  is not a JSON object, the cache is left as it was and the agent is reported not
  blocked.
\<close>

theorem status_fetch_on_miss:
  assumes st: "stale e agent w"
  shows "http_gets (snd (is_blocked e ck agent w)) = http_gets w @ [agent]
    \<and> snd (get_policies e ck agent w) = snd (is_blocked e ck agent w)
    \<and> (\<forall>code body.
          httpx_get e (length (http_gets w)) agent = GetResponse code body \<and> code \<noteq> 200 \<longrightarrow>
            status_cache (snd (is_blocked e ck agent w)) agent =
              Some \<lparr>ce_status = VStr ''ACTIVE'', ce_blocked_reason = VNone,
                    ce_policies = VList [],
                    ce_expires_at = monotonic e (insert_reading agent w) + ck_ttl ck\<rparr>
          \<and> fst (is_blocked e ck agent w) = (False, VNone))
    \<and> (\<forall>kvs.
          httpx_get e (length (http_gets w)) agent = GetResponse 200 (Some (VDict kvs)) \<longrightarrow>
            status_cache (snd (is_blocked e ck agent w)) agent =
              Some \<lparr>ce_status = dict_get kvs ''status'' (VStr ''ACTIVE''),
                    ce_blocked_reason = dict_get kvs ''blocked_reason'' VNone,
                    ce_policies = dict_get kvs ''policies'' (VList []),
                    ce_expires_at = monotonic e (insert_reading agent w) + ck_ttl ck\<rparr>
          \<and> fst (is_blocked e ck agent w) =
              (dict_get kvs ''status'' (VStr ''ACTIVE'') = VStr ''BLOCKED'',
               dict_get kvs ''blocked_reason'' VNone))
    \<and> (\<not> fetch_ok (httpx_get e (length (http_gets w)) agent) \<longrightarrow>
          status_cache (snd (is_blocked e ck agent w)) = status_cache w
          \<and> fst (is_blocked e ck agent w) = (False, VNone))"
proof -
  let ?w0 = "w\<lparr>mono_reads := insert_reading agent w\<rparr>"
  note ib = is_blocked_stale [OF st, of ck]
  have g: "http_gets ?w0 = http_gets w" by simp
  have a: "http_gets (snd (is_blocked e ck agent w)) = http_gets w @ [agent]"
  proof (cases "fetch_ok (httpx_get e (length (http_gets w)) agent)")
    case True
    then show ?thesis
    proof (cases "httpx_get e (length (http_gets w)) agent")
      case GetRaises
      with True show ?thesis by simp
    next
      case (GetResponse code body)
      show ?thesis
      proof (cases "code = 200")
        case False
        from fetch_and_cache_non200 [of e ?w0 agent code body, OF _ False] GetResponse
        show ?thesis unfolding ib is_blocked_miss_def by simp
      next
        case c: True
        with True GetResponse obtain kvs where "body = Some (VDict kvs)"
          by (auto split: option.splits pyval.splits)
        with fetch_and_cache_200 [of e ?w0 agent kvs] GetResponse c
        show ?thesis unfolding ib is_blocked_miss_def by simp
      qed
    qed
  next
    case False
    from fetch_and_cache_error [of e ?w0 agent ck] False obtain x where
      "fetch_and_cache e ck agent ?w0 = (Inl x, ?w0\<lparr>http_gets := http_gets ?w0 @ [agent]\<rparr>)"
      by auto
    then show ?thesis unfolding ib is_blocked_miss_def by simp
  qed
  have b: "status_cache (snd (is_blocked e ck agent w)) agent =
              Some \<lparr>ce_status = VStr ''ACTIVE'', ce_blocked_reason = VNone,
                    ce_policies = VList [],
                    ce_expires_at = monotonic e (insert_reading agent w) + ck_ttl ck\<rparr>
          \<and> fst (is_blocked e ck agent w) = (False, VNone)"
    if "httpx_get e (length (http_gets w)) agent = GetResponse code body" "code \<noteq> 200"
    for code body
    using fetch_and_cache_non200 [of e ?w0 agent code body ck] that
    unfolding ib is_blocked_miss_def by simp
  have c: "status_cache (snd (is_blocked e ck agent w)) agent =
              Some \<lparr>ce_status = dict_get kvs ''status'' (VStr ''ACTIVE''),
                    ce_blocked_reason = dict_get kvs ''blocked_reason'' VNone,
                    ce_policies = dict_get kvs ''policies'' (VList []),
                    ce_expires_at = monotonic e (insert_reading agent w) + ck_ttl ck\<rparr>
          \<and> fst (is_blocked e ck agent w) =
              (dict_get kvs ''status'' (VStr ''ACTIVE'') = VStr ''BLOCKED'',
               dict_get kvs ''blocked_reason'' VNone)"
    if "httpx_get e (length (http_gets w)) agent = GetResponse 200 (Some (VDict kvs))"
    for kvs
    using fetch_and_cache_200 [of e ?w0 agent kvs ck] that
    unfolding ib is_blocked_miss_def by simp
  have d: "status_cache (snd (is_blocked e ck agent w)) = status_cache w
          \<and> fst (is_blocked e ck agent w) = (False, VNone)"
    if "\<not> fetch_ok (httpx_get e (length (http_gets w)) agent)"
  proof -
    from fetch_and_cache_error [of e ?w0 agent ck] that obtain x where
      "fetch_and_cache e ck agent ?w0 = (Inl x, ?w0\<lparr>http_gets := http_gets ?w0 @ [agent]\<rparr>)"
      by auto
    then show ?thesis unfolding ib is_blocked_miss_def by simp
  qed
  from a same_effect [of e ck agent w] b c d show ?thesis by blast
qed

theorem status_fetch_on_miss_witness:
  "fst (is_blocked (env_status 200 (Some blocked_body)) checker0 ''agent-1'' world0)
     = (True, VStr ''manual'')
   \<and> status_cache (snd (is_blocked (env_status 200 (Some blocked_body)) checker0 ''agent-1'' world0))
        ''agent-1''
     = Some \<lparr>ce_status = VStr ''BLOCKED'', ce_blocked_reason = VStr ''manual'',
             ce_policies = VList [], ce_expires_at = 10\<rparr>
   \<and> http_gets (snd (is_blocked (env_status 200 (Some blocked_body)) checker0 ''agent-1'' world0))
     = [''agent-1'']"
proof -
  let ?e = "env_status 200 (Some blocked_body)"
  have st: "stale ?e ''agent-1'' world0"
    by (simp add: stale_def world0_def)
  have r: "httpx_get ?e (length (http_gets world0)) ''agent-1''
      = GetResponse 200 (Some (VDict [(''status'', VStr ''BLOCKED''), (''blocked_reason'', VStr ''manual'')]))"
    by (simp add: env_status_def env0_def blocked_body_def)
  note T = status_fetch_on_miss [OF st, of checker0]
  from T have g: "http_gets (snd (is_blocked ?e checker0 ''agent-1'' world0)) = http_gets world0 @ [''agent-1'']"
    by (rule conjunct1)
  from T [THEN conjunct2, THEN conjunct2, THEN conjunct2, THEN conjunct1, THEN spec, THEN mp, OF r]
  have "status_cache (snd (is_blocked ?e checker0 ''agent-1'' world0)) ''agent-1'' =
      Some \<lparr>ce_status = VStr ''BLOCKED'', ce_blocked_reason = VStr ''manual'',
             ce_policies = VList [], ce_expires_at = 10\<rparr>
    \<and> fst (is_blocked ?e checker0 ''agent-1'' world0) = (True, VStr ''manual'')"
    by (simp add: dict_get_def insert_reading_def world0_def env_status_def env0_def checker0_def
        DEFAULT_STATUS_TTL_SECONDS_def)
  with g show ?thesis by (simp add: world0_def)
qed

text \<open>
  The claim as stated fails for a 2xx status other than 200: a 201 response whose body
  reports \<open>BLOCKED\<close> is not parsed; \<open>{ACTIVE, None, []}\<close> is cached and the agent is
  reported not blocked.
\<close>

theorem status_2xx_parsed_counterexample:
  "fst (is_blocked (env_status 201 (Some blocked_body)) checker0 ''agent-1'' world0)
     = (False, VNone)
   \<and> status_cache (snd (is_blocked (env_status 201 (Some blocked_body)) checker0 ''agent-1'' world0))
        ''agent-1''
     = Some \<lparr>ce_status = VStr ''ACTIVE'', ce_blocked_reason = VNone,
             ce_policies = VList [], ce_expires_at = 10\<rparr>"
  by (simp add: is_blocked_def is_blocked_miss_def fetch_and_cache_def fetch_status_def
      read_monotonic_def Let_def env_status_def env0_def world0_def checker0_def
      DEFAULT_STATUS_TTL_SECONDS_def)

lemma fetch_and_cache_ok:
  assumes "fetch_ok (httpx_get e (length (http_gets w)) agent)"
  shows "\<exists>ent. fetch_and_cache e ck agent w =
      (Inr (), w\<lparr>http_gets := http_gets w @ [agent], mono_reads := mono_reads w + 1,
                status_cache := (status_cache w)(agent := Some ent)\<rparr>)
     \<and> ce_expires_at ent = monotonic e (mono_reads w) + ck_ttl ck"
proof (cases "httpx_get e (length (http_gets w)) agent")
  case GetRaises
  with assms show ?thesis by simp
next
  case (GetResponse code body)
  show ?thesis
  proof (cases "code = 200")
    case False
    from fetch_and_cache_non200 [OF GetResponse False, of ck] show ?thesis
      by (intro exI [of _ "\<lparr>ce_status = VStr ''ACTIVE'', ce_blocked_reason = VNone,
                         ce_policies = VList [],
                         ce_expires_at = monotonic e (mono_reads w) + ck_ttl ck\<rparr>"]) simp
  next
    case True
    with assms GetResponse obtain kvs where "body = Some (VDict kvs)"
      by (auto split: option.splits pyval.splits)
    with GetResponse True fetch_and_cache_200 [of e w agent kvs ck] show ?thesis
      by (intro exI [of _ "\<lparr>ce_status = dict_get kvs ''status'' (VStr ''ACTIVE''),
                         ce_blocked_reason = dict_get kvs ''blocked_reason'' VNone,
                         ce_policies = dict_get kvs ''policies'' (VList []),
                         ce_expires_at = monotonic e (mono_reads w) + ck_ttl ck\<rparr>"]) simp
  qed
qed

lemma gets_for_append: "gets_for a (w\<lparr>http_gets := http_gets w @ [b], mono_reads := n, status_cache := c\<rparr>)
   = gets_for a w + (if b = a then 1 else 0)"
  by (simp add: gets_for_def)

lemma is_blocked_miss_step:
  assumes ok: "\<forall>k. fetch_ok (httpx_get e k a)"
  shows "\<exists>ent. snd (is_blocked_miss e ck a w) =
           w\<lparr>http_gets := http_gets w @ [a], mono_reads := mono_reads w + 1,
             status_cache := (status_cache w)(a := Some ent)\<rparr>
         \<and> ce_expires_at ent = monotonic e (mono_reads w) + ck_ttl ck"
proof -
  from ok have "fetch_ok (httpx_get e (length (http_gets w)) a)" by blast
  from fetch_and_cache_ok [OF this, of ck] obtain ent where
    "fetch_and_cache e ck a w =
      (Inr (), w\<lparr>http_gets := http_gets w @ [a], mono_reads := mono_reads w + 1,
                status_cache := (status_cache w)(a := Some ent)\<rparr>)"
    "ce_expires_at ent = monotonic e (mono_reads w) + ck_ttl ck" by blast
  then show ?thesis by (intro exI [of _ ent]) (simp add: is_blocked_miss_def)
qed

lemma fetch_and_cache_other:
  assumes "a' \<noteq> a"
  shows "mono_reads w \<le> mono_reads (snd (fetch_and_cache e ck a' w))
       \<and> gets_for a (snd (fetch_and_cache e ck a' w)) = gets_for a w
       \<and> status_cache (snd (fetch_and_cache e ck a' w)) a = status_cache w a"
proof (cases "fetch_ok (httpx_get e (length (http_gets w)) a')")
  case True
  from fetch_and_cache_ok [OF True, of ck] obtain ent where
    "fetch_and_cache e ck a' w =
      (Inr (), w\<lparr>http_gets := http_gets w @ [a'], mono_reads := mono_reads w + 1,
                status_cache := (status_cache w)(a' := Some ent)\<rparr>)" by blast
  with assms show ?thesis by (simp add: gets_for_def)
next
  case False
  from fetch_and_cache_error [OF False, of ck] obtain x where
    "fetch_and_cache e ck a' w = (Inl x, w\<lparr>http_gets := http_gets w @ [a']\<rparr>)" by blast
  with assms show ?thesis by (simp add: gets_for_def)
qed

lemma is_blocked_miss_snd:
  "snd (is_blocked_miss e ck a' w) = snd (fetch_and_cache e ck a' w)"
  by (simp add: is_blocked_miss_def split: prod.splits sum.splits option.splits)

lemma is_blocked_other:
  assumes "a' \<noteq> a"
  shows "mono_reads w \<le> mono_reads (snd (is_blocked e ck a' w))
       \<and> gets_for a (snd (is_blocked e ck a' w)) = gets_for a w
       \<and> status_cache (snd (is_blocked e ck a' w)) a = status_cache w a"
proof (cases "status_cache w a'")
  case None
  then have "is_blocked e ck a' w = is_blocked_miss e ck a' w" by (simp add: is_blocked_def)
  with fetch_and_cache_other [OF assms, of w e ck] show ?thesis
    by (simp add: is_blocked_miss_snd)
next
  case (Some entry)
  let ?w1 = "w\<lparr>mono_reads := mono_reads w + 1\<rparr>"
  show ?thesis
  proof (cases "monotonic e (mono_reads w) < ce_expires_at entry")
    case True
    with Some have "snd (is_blocked e ck a' w) = ?w1"
      by (simp add: is_blocked_def read_monotonic_def)
    then show ?thesis by (simp add: gets_for_def)
  next
    case False
    with Some have "is_blocked e ck a' w = is_blocked_miss e ck a' ?w1"
      by (simp add: is_blocked_def read_monotonic_def)
    with fetch_and_cache_other [OF assms, of ?w1 e ck] show ?thesis
      by (simp add: is_blocked_miss_snd gets_for_def)
  qed
qed

lemma is_blocked_same:
  assumes ok: "\<forall>k. fetch_ok (httpx_get e k a)"
  shows "fetch_step e ck a w (snd (is_blocked e ck a w))"
proof (cases "status_cache w a")
  case None
  then have ib: "is_blocked e ck a w = is_blocked_miss e ck a w" by (simp add: is_blocked_def)
  from is_blocked_miss_step [OF ok, of ck w] obtain ent where
    s: "snd (is_blocked_miss e ck a w) =
           w\<lparr>http_gets := http_gets w @ [a], mono_reads := mono_reads w + 1,
             status_cache := (status_cache w)(a := Some ent)\<rparr>"
    and x: "ce_expires_at ent = monotonic e (mono_reads w) + ck_ttl ck" by blast
  have "gets_for a (snd (is_blocked e ck a w)) = gets_for a w + 1"
    unfolding ib s by (simp add: gets_for_def)
  moreover have "\<exists>k ent'. mono_reads w \<le> k \<and> k < mono_reads (snd (is_blocked e ck a w))
                  \<and> status_cache (snd (is_blocked e ck a w)) a = Some ent'
                  \<and> ce_expires_at ent' = monotonic e k + ck_ttl ck
                  \<and> (\<forall>ent. status_cache w a = Some ent \<longrightarrow>
                        (\<exists>j. mono_reads w \<le> j \<and> j \<le> k
                            \<and> ce_expires_at ent \<le> monotonic e j))"
    unfolding ib s using x None
    by (intro exI [of _ "mono_reads w"] exI [of _ ent]) simp
  moreover have "mono_reads w \<le> mono_reads (snd (is_blocked e ck a w))"
    unfolding ib s by simp
  ultimately show ?thesis unfolding fetch_step_def by blast
next
  case (Some entry)
  let ?w1 = "w\<lparr>mono_reads := mono_reads w + 1\<rparr>"
  show ?thesis
  proof (cases "monotonic e (mono_reads w) < ce_expires_at entry")
    case True
    with Some have "snd (is_blocked e ck a w) = ?w1"
      by (simp add: is_blocked_def read_monotonic_def)
    then show ?thesis by (simp add: fetch_step_def gets_for_def)
  next
    case False
    with Some have ib: "is_blocked e ck a w = is_blocked_miss e ck a ?w1"
      by (simp add: is_blocked_def read_monotonic_def)
    from is_blocked_miss_step [OF ok, of ck ?w1] obtain ent where
      s: "snd (is_blocked_miss e ck a ?w1) =
           ?w1\<lparr>http_gets := http_gets ?w1 @ [a], mono_reads := mono_reads ?w1 + 1,
             status_cache := (status_cache ?w1)(a := Some ent)\<rparr>"
      and x: "ce_expires_at ent = monotonic e (mono_reads ?w1) + ck_ttl ck" by blast
    have "gets_for a (snd (is_blocked e ck a w)) = gets_for a w + 1"
      unfolding ib s by (simp add: gets_for_def)
    moreover have "\<exists>k ent'. mono_reads w \<le> k \<and> k < mono_reads (snd (is_blocked e ck a w))
                  \<and> status_cache (snd (is_blocked e ck a w)) a = Some ent'
                  \<and> ce_expires_at ent' = monotonic e k + ck_ttl ck
                  \<and> (\<forall>ent. status_cache w a = Some ent \<longrightarrow>
                        (\<exists>j. mono_reads w \<le> j \<and> j \<le> k
                            \<and> ce_expires_at ent \<le> monotonic e j))"
      unfolding ib s using x Some False
      by (intro exI [of _ "mono_reads w + 1"] exI [of _ ent])
         (auto intro!: exI [of _ "mono_reads w"])
    moreover have "mono_reads w \<le> mono_reads (snd (is_blocked e ck a w))"
      unfolding ib s by simp
    ultimately show ?thesis unfolding fetch_step_def by blast
  qed
qed

lemma run_call_step:
  assumes ok: "\<forall>k. fetch_ok (httpx_get e k a)"
  shows "fetch_step e ck a w (run_call e ck c w)"
proof -
  have ib: "fetch_step e ck a w (snd (is_blocked e ck a' w))" for a'
  proof (cases "a' = a")
    case True
    with is_blocked_same [OF ok] show ?thesis by simp
  next
    case False
    from is_blocked_other [OF False, of w e ck] show ?thesis
      by (simp add: fetch_step_def)
  qed
  show ?thesis
    by (cases c) (simp_all add: ib same_effect)
qed

lemma run_calls_reads: 
  assumes ok: "\<forall>k. fetch_ok (httpx_get e k a)"
  shows "mono_reads w \<le> mono_reads (run_calls e ck cs w)"
proof (induction cs arbitrary: w)
  case Nil
  show ?case by simp
next
  case (Cons c cs)
  from run_call_step [OF ok, of ck w c] have "mono_reads w \<le> mono_reads (run_call e ck c w)"
    by (simp add: fetch_step_def)
  also have "\<dots> \<le> mono_reads (run_calls e ck cs (run_call e ck c w))" by (rule Cons.IH)
  finally show ?case by simp
qed

lemma floor_shift:
  fixes d T :: rat
  assumes "0 < T"
  shows "\<lfloor>(d - T) / T\<rfloor> + 1 = \<lfloor>d / T\<rfloor>"
proof -
  have "(d - T) / T = d / T - 1" using assms by (simp add: diff_divide_distrib)
  then show ?thesis by simp
qed

lemma budget_after_insert:
  fixes s T hi :: rat
  assumes T: "0 < T" and s: "s \<le> hi"
  shows "(if s + T \<le> hi then \<lfloor>(hi - (s + T)) / T\<rfloor> + 1 else 0) \<le> \<lfloor>(hi - s) / T\<rfloor>"
proof (cases "s + T \<le> hi")
  case True
  have "hi - (s + T) = (hi - s) - T" by simp
  then have "\<lfloor>(hi - (s + T)) / T\<rfloor> + 1 = \<lfloor>(hi - s) / T\<rfloor>"
    using floor_shift [OF T, of "hi - s"] by (simp only:)
  with True show ?thesis by (simp only: if_True order_refl)
next
  case False
  from T s have "0 \<le> (hi - s) / T" by simp
  then have "0 \<le> \<lfloor>(hi - s) / T\<rfloor>" by simp
  with False show ?thesis by simp
qed

lemma gets_budget:
  assumes ok: "\<forall>k. fetch_ok (httpx_get e k a)" and T: "0 < ck_ttl ck"
  shows "\<lbrakk>\<forall>k. mono_reads w \<le> k \<and> k < mono_reads (run_calls e ck cs w) \<longrightarrow>
              lo \<le> monotonic e k \<and> monotonic e k \<le> hi;
          \<forall>i j. mono_reads w \<le> i \<and> i \<le> j \<and> j < mono_reads (run_calls e ck cs w) \<longrightarrow>
              monotonic e i \<le> monotonic e j\<rbrakk>
         \<Longrightarrow> int (gets_for a (run_calls e ck cs w))
              \<le> int (gets_for a w) + fetch_budget ck a lo hi w"
proof (induction cs arbitrary: w)
  case Nil
  have "0 \<le> fetch_budget ck a lo hi w"
    using T by (simp add: fetch_budget_def)
  then show ?case by simp
next
  case (Cons c cs)
  let ?w1 = "run_call e ck c w"
  let ?wN = "run_calls e ck cs ?w1"
  have wN: "run_calls e ck (c # cs) w = ?wN" by simp
  note win = Cons.prems(1) [unfolded wN] and mon = Cons.prems(2) [unfolded wN]
  from run_call_step [OF ok, of ck w c] have step: "fetch_step e ck a w ?w1" .
  then have r01: "mono_reads w \<le> mono_reads ?w1" by (simp add: fetch_step_def)
  have r1N: "mono_reads ?w1 \<le> mono_reads ?wN" by (rule run_calls_reads [OF ok])
  have IH: "int (gets_for a ?wN) \<le> int (gets_for a ?w1) + fetch_budget ck a lo hi ?w1"
  proof (rule Cons.IH)
    show "\<forall>k. mono_reads ?w1 \<le> k \<and> k < mono_reads ?wN \<longrightarrow>
              lo \<le> monotonic e k \<and> monotonic e k \<le> hi"
      using win r01 by (meson le_trans)
    show "\<forall>i j. mono_reads ?w1 \<le> i \<and> i \<le> j \<and> j < mono_reads ?wN \<longrightarrow>
              monotonic e i \<le> monotonic e j"
      using mon r01 by (meson le_trans)
  qed
  from step consider
    (same) "gets_for a ?w1 = gets_for a w" "status_cache ?w1 a = status_cache w a"
  | (fetch) k ent' where "gets_for a ?w1 = gets_for a w + 1"
      "mono_reads w \<le> k" "k < mono_reads ?w1" "status_cache ?w1 a = Some ent'"
      "ce_expires_at ent' = monotonic e k + ck_ttl ck"
      "\<forall>ent. status_cache w a = Some ent \<longrightarrow>
          (\<exists>j. mono_reads w \<le> j \<and> j \<le> k \<and> ce_expires_at ent \<le> monotonic e j)"
    unfolding fetch_step_def by blast
  then show ?case
  proof cases
    case same
    then have "fetch_budget ck a lo hi ?w1 = fetch_budget ck a lo hi w"
      by (simp add: fetch_budget_def next_insert_def)
    with IH same show ?thesis by simp
  next
    case fetch
    let ?s = "monotonic e k"
    from fetch(3) r1N have kN: "k < mono_reads ?wN" by simp
    with win fetch(2) have lo: "lo \<le> ?s" and hi: "?s \<le> hi" by blast+
    have L: "next_insert a lo w \<le> ?s"
    proof (cases "status_cache w a")
      case None
      with lo show ?thesis by (simp add: next_insert_def)
    next
      case (Some ent)
      with fetch(6) obtain j where j: "mono_reads w \<le> j" "j \<le> k"
        "ce_expires_at ent \<le> monotonic e j" by blast
      from mon j(1,2) kN have "monotonic e j \<le> ?s" by blast
      with j(3) lo Some show ?thesis by (simp add: next_insert_def)
    qed
    have n1: "next_insert a lo ?w1 = ?s + ck_ttl ck"
      using fetch(4,5) lo T by (simp add: next_insert_def max_def)
    have b1: "fetch_budget ck a lo hi ?w1 \<le> \<lfloor>(hi - ?s) / ck_ttl ck\<rfloor>"
      unfolding fetch_budget_def n1 by (rule budget_after_insert [OF T hi])
    have "(hi - ?s) / ck_ttl ck \<le> (hi - next_insert a lo w) / ck_ttl ck"
      using L T by (simp add: divide_right_mono)
    then have "\<lfloor>(hi - ?s) / ck_ttl ck\<rfloor> \<le> \<lfloor>(hi - next_insert a lo w) / ck_ttl ck\<rfloor>"
      by (rule floor_mono)
    moreover from L hi have "next_insert a lo w \<le> hi" by simp
    ultimately have b0: "\<lfloor>(hi - ?s) / ck_ttl ck\<rfloor> + 1 \<le> fetch_budget ck a lo hi w"
      by (simp add: fetch_budget_def)
    from IH fetch(1) b1 b0 show ?thesis by simp
  qed
qed

text \<open>
  The example of the specification: three reads of one agent within the TTL, the endpoint
  answering 200. One GET, and the two later reads are served by the cache.
\<close>

lemma run_three_reads: "run_calls env_ok checker0
       [IsBlocked ''agent-1'', GetPolicies ''agent-1'', IsBlocked ''agent-1''] world0
     = world0\<lparr>mono_reads := 3, http_gets := [''agent-1''],
          status_cache := (\<lambda>_. None)(''agent-1'' :=
             Some \<lparr>ce_status = VStr ''BLOCKED'', ce_blocked_reason = VStr ''manual'',
                   ce_policies = VList [], ce_expires_at = 10\<rparr>)\<rparr>"
  by (simp add: is_blocked_def is_blocked_miss_def get_policies_def get_policies_miss_def
      fetch_and_cache_def fetch_status_def py_get_def dict_get_def blocked_body_def
      read_monotonic_def Let_def env_ok_def env_status_def env0_def world0_def checker0_def
      DEFAULT_STATUS_TTL_SECONDS_def)

text \<open>
  Claim C6, as the code has it. Take a checker with a positive TTL, an agent \<open>a\<close> whose
  GETs all end in a response that is cached (a status code other than 200, or a 200 with a
  body that parses), and any sequence of \<^verbatim>\<open>is_blocked\<close> and \<^verbatim>\<open>get_policies\<close> calls, for
  any agents, whose readings of the monotonic clock are non-decreasing and all lie in a
  window of \<open>elapsed\<close> seconds. Then the calls make at most \<open>\<lceil>elapsed / TTL\<rceil> + 1\<close> GETs
  for \<open>a\<close>, whatever the cache held before.
\<close>

theorem status_fetch_bound:
  assumes ttl: "0 < ck_ttl ck" and el: "0 \<le> elapsed"
    and ok: "\<forall>k. fetch_ok (httpx_get e k a)"
    and window: "\<forall>k. mono_reads w \<le> k \<and> k < mono_reads (run_calls e ck cs w) \<longrightarrow>
                   start \<le> monotonic e k \<and> monotonic e k \<le> start + elapsed"
    and mono: "\<forall>i j. mono_reads w \<le> i \<and> i \<le> j \<and> j < mono_reads (run_calls e ck cs w) \<longrightarrow>
                   monotonic e i \<le> monotonic e j"
  shows "int (gets_for a (run_calls e ck cs w)) - int (gets_for a w)
           \<le> \<lceil>elapsed / ck_ttl ck\<rceil> + 1"
proof -
  let ?L = "next_insert a start w"
  have L: "start \<le> ?L" by (simp add: next_insert_def split: option.splits)
  have nn: "0 \<le> \<lceil>elapsed / ck_ttl ck\<rceil>"
  proof -
    from ttl el have "0 \<le> elapsed / ck_ttl ck" by simp
    then have "\<lceil>0::rat\<rceil> \<le> \<lceil>elapsed / ck_ttl ck\<rceil>" by (rule ceiling_mono)
    then show ?thesis by simp
  qed
  have "fetch_budget ck a start (start + elapsed) w \<le> \<lceil>elapsed / ck_ttl ck\<rceil> + 1"
  proof (cases "?L \<le> start + elapsed")
    case True
    from L have "(start + elapsed - ?L) / ck_ttl ck \<le> elapsed / ck_ttl ck"
      using ttl by (simp add: divide_right_mono)
    then have "\<lfloor>(start + elapsed - ?L) / ck_ttl ck\<rfloor> \<le> \<lfloor>elapsed / ck_ttl ck\<rfloor>"
      by (rule floor_mono)
    also have "\<dots> \<le> \<lceil>elapsed / ck_ttl ck\<rceil>" by (rule floor_le_ceiling)
    finally show ?thesis using True by (simp add: fetch_budget_def)
  next
    case False
    with nn show ?thesis by (simp add: fetch_budget_def)
  qed
  with gets_budget [OF ok ttl window mono] show ?thesis by simp
qed

theorem status_fetch_bound_witness:
  "int (gets_for ''agent-1'' (run_calls env_ok checker0
          [IsBlocked ''agent-1'', GetPolicies ''agent-1'', IsBlocked ''agent-1''] world0))
     - int (gets_for ''agent-1'' world0) \<le> \<lceil>2 / ck_ttl checker0\<rceil> + 1"
proof -
  let ?cs = "[IsBlocked ''agent-1'', GetPolicies ''agent-1'', IsBlocked ''agent-1'']"
  have m: "monotonic env_ok k = of_nat k" for k
    by (simp add: env_ok_def env_status_def env0_def)
  have ttl: "0 < ck_ttl checker0" and el: "(0::rat) \<le> 2"
    by (simp_all add: checker0_def DEFAULT_STATUS_TTL_SECONDS_def)
  have ok: "\<forall>k. fetch_ok (httpx_get env_ok k ''agent-1'')"
    by (simp add: env_ok_def env_status_def blocked_body_def)
  have window: "\<forall>k. mono_reads world0 \<le> k \<and> k < mono_reads (run_calls env_ok checker0 ?cs world0)
       \<longrightarrow> 0 \<le> monotonic env_ok k \<and> monotonic env_ok k \<le> 0 + 2"
  proof (intro allI impI)
    fix k assume "mono_reads world0 \<le> k \<and> k < mono_reads (run_calls env_ok checker0 ?cs world0)"
    then have "k < mono_reads (run_calls env_ok checker0 ?cs world0)" by (rule conjunct2)
    then have "k < 3" by (simp only: run_three_reads) simp
    then have "k \<le> 2" by simp
    then have "(of_nat k :: rat) \<le> of_nat 2" by (simp only: of_nat_le_iff)
    then show "0 \<le> monotonic env_ok k \<and> monotonic env_ok k \<le> 0 + 2" by (simp add: m)
  qed
  have mono: "\<forall>i j. mono_reads world0 \<le> i \<and> i \<le> j
        \<and> j < mono_reads (run_calls env_ok checker0 ?cs world0)
       \<longrightarrow> monotonic env_ok i \<le> monotonic env_ok j"
    by (simp add: m)
  from status_fetch_bound [OF ttl el ok window mono] show ?thesis .
qed

text \<open>
  Without the hypothesis on the GETs the bound fails: a GET that raises leaves the cache as
  it was, so every read of the agent makes a GET. Four reads against an endpoint that
  cannot be reached make four GETs, in a window of any length; \<open>\<lceil>3 / 10\<rceil> + 1 = 2\<close>.
\<close>

theorem status_fetch_bound_errors_counterexample:
  "\<not> (int (gets_for ''agent-1'' (run_calls env0 checker0
            [IsBlocked ''agent-1'', GetPolicies ''agent-1'',
             IsBlocked ''agent-1'', GetPolicies ''agent-1''] world0))
        - int (gets_for ''agent-1'' world0) \<le> \<lceil>3 / ck_ttl checker0\<rceil> + 1)"
proof -
  have "run_calls env0 checker0
            [IsBlocked ''agent-1'', GetPolicies ''agent-1'',
             IsBlocked ''agent-1'', GetPolicies ''agent-1''] world0
      = world0\<lparr>http_gets := [''agent-1'', ''agent-1'', ''agent-1'', ''agent-1'']\<rparr>"
    by (simp add: is_blocked_def is_blocked_miss_def get_policies_def get_policies_miss_def
      fetch_and_cache_def fetch_status_def env0_def world0_def Let_def)
  moreover have "\<lceil>(3::rat) / 10\<rceil> = 1" by (simp add: ceiling_eq_iff)
  ultimately show ?thesis
    by (simp add: gets_for_def world0_def checker0_def DEFAULT_STATUS_TTL_SECONDS_def)
qed

section \<open>Properties of the prompt fingerprint\<close>








section \<open>Properties of \<^verbatim>\<open>trace_tool\<close>\<close>

lemma start_span_obj:
  assumes "start_span e nm st inp mid tc w = (Inr r, tc1, w1)"
  shows "span_type (objs tc1 r) = st \<and> name (objs tc1 r) = nm
       \<and> input_tokens (objs tc1 r) = VInt 0 \<and> output_tokens (objs tc1 r) = VInt 0
       \<and> model_id (objs tc1 r) = mid \<and> status (objs tc1 r) = ''OK''
       \<and> error (objs tc1 r) = None \<and> span_output (objs tc1 r) = None
       \<and> user_calls w1 = user_calls w \<and> st \<in> set SPAN_TYPES"
  using assms
  by (auto simp: start_span_def new_span_def draw_uuid4_def read_utcnow_def Let_def
      split: if_splits)

lemma start_span_user_calls:
  assumes "start_span e nm st inp mid tc w = (res, tc1, w1)"
  shows "user_calls w1 = user_calls w"
  using assms
  by (auto simp: start_span_def new_span_def draw_uuid4_def read_utcnow_def Let_def
      split: if_splits)

lemma end_span_user_calls:
  assumes "end_span e r outp st err itok otok mid tc w = (res, tc2, w2)"
  shows "user_calls w2 = user_calls w"
  using assms
  by (auto simp: end_span_def read_utcnow_def Let_def split: if_splits sum.splits)

lemma end_span_no_tokens:
  assumes "\<not> py_truthy itok" "\<not> py_truthy otok"
  shows "\<exists>tc2 w2. end_span e r outp st err itok otok mid tc w = (Inr (), tc2, w2)
     \<and> span_type (objs tc2 r) = span_type (objs tc r)
     \<and> name (objs tc2 r) = name (objs tc r)
     \<and> span_output (objs tc2 r) = truncate_text outp
     \<and> status (objs tc2 r) = st \<and> error (objs tc2 r) = err
     \<and> spans tc2 = spans tc \<and> user_calls w2 = user_calls w"
  using assms by (simp add: end_span_def read_utcnow_def Let_def)

lemma truncate_short:
  "truncate_text (Some (py_slice_to 2000 s)) = Some (take 2000 s)"
  by (simp add: truncate_text_def truncate_max_def py_slice_to_def MAX_IO_LENGTH_def)

lemma py_call_bind_error:
  assumes "bind_error f args kwargs = Some x"
  shows "py_call f args kwargs tc w = (Inl x, tc, w)"
  using assms by (simp add: py_call_def)

lemma first_some_keyword:
  assumes "key \<in> set ks" "g key \<noteq> None"
  shows "first_some g ks \<noteq> None"
  using assms by (induction ks) (auto split: option.splits)

lemma unexpected_keyword:
  assumes "key \<in> fst ` set kwargs" "key \<notin> set (sig_parameters f)"
    "params_of_kind VarKeyword f = []"
  shows "\<exists>x. bind_error f args kwargs = Some x"
proof -
  have "keyword_error f (length args) key \<noteq> None"
    using assms(2,3)
    by (auto simp: keyword_error_def sig_parameters_def params_of_kind_def Let_def)
  with assms(1) have "first_some (keyword_error f (length args)) (map fst kwargs) \<noteq> None"
    by (intro first_some_keyword [of key]) auto
  then show ?thesis by (auto simp: bind_error_def Let_def)
qed

text \<open>
  Claim C9, as the code has it. The wrapper never looks at the signature of the function:
  it calls it with the positional and keyword arguments it was called with. (1) When
  \<^verbatim>\<open>kwargs.get("trace")\<close> is not the trace context, the wrapper is that call, with
  its result and its effects. (2) When it is, the call runs within a span that
  \<open>start_span\<close> has made before: if the call returns \<open>v\<close> and has left that span
  object alone, the wrapper returns \<open>v\<close>, and the span has the configured type, the tool
  name, status \<open>OK\<close> and as output the first 2000 characters of \<^verbatim>\<open>str(v)\<close>
  (\<^verbatim>\<open>None\<close> for the result \<^verbatim>\<open>None\<close>). (3) A function that has neither a parameter
  named \<open>trace\<close> nor \<^verbatim>\<open>**kwargs\<close> is still handed the keyword \<open>trace\<close> when the caller
  gives one: the call raises (\<^verbatim>\<open>TypeError\<close>, from the binding of the arguments) and the
  body of the function is not entered.
\<close>

theorem trace_tool_forwards_arguments:
  "(dict_get kwargs ''trace'' VNone \<noteq> VTrace \<longrightarrow>
      trace_tool e name_opt st f args kwargs tc w = py_call f args kwargs tc w)
   \<and> (\<forall>r tc1 w1 v tc2 w2.
        dict_get kwargs ''trace'' VNone = VTrace
        \<and> start_span e (tool_name_of name_opt f) st None VNone tc w = (Inr r, tc1, w1)
        \<and> py_call f args kwargs tc1 w1 = (Inr v, tc2, w2)
        \<and> objs tc2 r = objs tc1 r \<longrightarrow>
        (\<exists>tc3 w3.
           trace_tool e name_opt st f args kwargs tc w = (Inr v, tc3, w3)
         \<and> span_type (objs tc3 r) = st
         \<and> name (objs tc3 r) = tool_name_of name_opt f
         \<and> status (objs tc3 r) = ''OK''
         \<and> span_output (objs tc3 r) =
               (if v = VNone then None else Some (take 2000 (py_str e v)))
         \<and> spans tc3 = spans tc2))
   \<and> (''trace'' \<in> fst ` set kwargs \<and> ''trace'' \<notin> set (sig_parameters f)
        \<and> params_of_kind VarKeyword f = [] \<longrightarrow>
        (\<exists>x tc3 w3.
           trace_tool e name_opt st f args kwargs tc w = (Inl x, tc3, w3)
         \<and> user_calls w3 = user_calls w))"
proof (intro conjI allI impI)
  assume "dict_get kwargs ''trace'' VNone \<noteq> VTrace"
  then show "trace_tool e name_opt st f args kwargs tc w = py_call f args kwargs tc w"
    by (simp add: trace_tool_def Let_def)
next
  fix r tc1 w1 v tc2 w2
  assume h: "dict_get kwargs ''trace'' VNone = VTrace
        \<and> start_span e (tool_name_of name_opt f) st None VNone tc w = (Inr r, tc1, w1)
        \<and> py_call f args kwargs tc1 w1 = (Inr v, tc2, w2)
        \<and> objs tc2 r = objs tc1 r"
  let ?out = "if v \<noteq> VNone then Some (py_slice_to 2000 (py_str e v)) else None"
  let ?tc2 = "tc2\<lparr>objs := (objs tc2)(r := (objs tc2 r)\<lparr>span_output := ?out\<rparr>)\<rparr>"
  from h have tr: "dict_get kwargs ''trace'' VNone = VTrace"
    and st: "start_span e (tool_name_of name_opt f) st None VNone tc w = (Inr r, tc1, w1)"
    and call: "py_call f args kwargs tc1 w1 = (Inr v, tc2, w2)"
    and same: "objs tc2 r = objs tc1 r" by simp_all
  note o = start_span_obj [OF st]
  have s: "objs ?tc2 r = (objs tc1 r)\<lparr>span_output := ?out\<rparr>" using same by simp
  have tok: "\<not> py_truthy (input_tokens (objs ?tc2 r))" "\<not> py_truthy (output_tokens (objs ?tc2 r))"
    using o by (simp_all add: same)
  from end_span_no_tokens [OF tok, of e r "span_output (objs ?tc2 r)" "status (objs ?tc2 r)"
      "error (objs ?tc2 r)" "model_id (objs ?tc2 r)" ?tc2 w2]
  obtain tc3 w3 where
    en: "end_span e r (span_output (objs ?tc2 r)) (status (objs ?tc2 r)) (error (objs ?tc2 r))
           (input_tokens (objs ?tc2 r)) (output_tokens (objs ?tc2 r)) (model_id (objs ?tc2 r))
           ?tc2 w2 = (Inr (), tc3, w3)"
    and p: "span_type (objs tc3 r) = span_type (objs ?tc2 r)"
      "name (objs tc3 r) = name (objs ?tc2 r)"
      "span_output (objs tc3 r) = truncate_text (span_output (objs ?tc2 r))"
      "status (objs tc3 r) = status (objs ?tc2 r)"
      "spans tc3 = spans ?tc2"
    by blast
  have res: "trace_tool e name_opt st f args kwargs tc w = (Inr v, tc3, w3)"
    using tr st call en
    by (simp add: trace_tool_def with_span_def tool_name_of_def Let_def)
  have out: "span_output (objs tc3 r) = (if v = VNone then None else Some (take 2000 (py_str e v)))"
    using p(3) by (simp add: same truncate_short) (simp add: truncate_text_def truncate_max_def)
  from res p o out show "\<exists>tc3 w3.
           trace_tool e name_opt st f args kwargs tc w = (Inr v, tc3, w3)
         \<and> span_type (objs tc3 r) = st
         \<and> name (objs tc3 r) = tool_name_of name_opt f
         \<and> status (objs tc3 r) = ''OK''
         \<and> span_output (objs tc3 r) =
               (if v = VNone then None else Some (take 2000 (py_str e v)))
         \<and> spans tc3 = spans tc2"
    by (simp add: same)
next
  assume h: "''trace'' \<in> fst ` set kwargs \<and> ''trace'' \<notin> set (sig_parameters f)
        \<and> params_of_kind VarKeyword f = []"
  then obtain x where be: "bind_error f args kwargs = Some x"
    using unexpected_keyword [of "''trace''" kwargs f args] by blast
  note pc = py_call_bind_error [OF be]
  show "\<exists>x tc3 w3.
           trace_tool e name_opt st f args kwargs tc w = (Inl x, tc3, w3)
         \<and> user_calls w3 = user_calls w"
  proof (cases "dict_get kwargs ''trace'' VNone = VTrace")
    case False
    then show ?thesis by (simp add: trace_tool_def Let_def pc)
  next
    case True
    obtain res tc1 w1 where st: "start_span e (tool_name_of name_opt f) st None VNone tc w = (res, tc1, w1)"
      by (metis prod_cases3)
    note u1 = start_span_user_calls [OF st]
    show ?thesis
    proof (cases res)
      case (Inl y)
      with True st u1 show ?thesis
        by (simp add: trace_tool_def with_span_def tool_name_of_def Let_def)
    next
      case (Inr r)
      let ?s = "objs tc1 r"
      obtain res2 tc3 w3 where en: "end_span e r None ''ERROR'' (Some (exn_str e x))
          (input_tokens ?s) (output_tokens ?s) (model_id ?s) tc1 w1 = (res2, tc3, w3)"
        by (metis prod_cases3)
      note u2 = end_span_user_calls [OF en]
      from True st Inr en u1 u2 show ?thesis
        by (cases res2) (simp_all add: trace_tool_def with_span_def tool_name_of_def Let_def pc)
    qed
  qed
qed

text \<open>
  A tool \<^verbatim>\<open>search_traced(query, trace=None)\<close> called with the trace context of an
  invocation: one span of type \<open>tool\<close> is recorded, with the result as its output.
\<close>

theorem trace_tool_forwards_arguments_witness:
  "\<exists>tc3 w3.
     trace_tool env0 (Some ''web_search'') ''tool'' search_traced [VStr ''q'']
        [(''trace'', VTrace)] trace0 world0 = (Inr (VStr ''found''), tc3, w3)
   \<and> span_type (objs tc3 0) = ''tool''
   \<and> name (objs tc3 0) = ''web_search''
   \<and> status (objs tc3 0) = ''OK''
   \<and> span_output (objs tc3 0) = Some ''found''
   \<and> spans tc3 = [0]"
proof -
  let ?st = "start_span env0 ''web_search'' ''tool'' None VNone trace0 world0"
  let ?tc1 = "fst (snd ?st)" and ?w1 = "snd (snd ?st)"
  have nm: "tool_name_of (Some ''web_search'') search_traced = ''web_search''"
    by (simp add: tool_name_of_def)
  have r: "fst ?st = Inr 0"
    by (simp add: start_span_def new_span_def draw_uuid4_def read_utcnow_def Let_def
        SPAN_TYPES_def MAX_SPANS_PER_TRACE_def trace0_def)
  have sp: "spans ?tc1 = [0]"
    by (simp add: start_span_def new_span_def draw_uuid4_def read_utcnow_def Let_def
        SPAN_TYPES_def MAX_SPANS_PER_TRACE_def trace0_def)
  from r have st: "start_span env0 (tool_name_of (Some ''web_search'') search_traced) ''tool''
      None VNone trace0 world0 = (Inr 0, ?tc1, ?w1)"
    by (simp add: nm prod_eq_iff)
  have "py_call search_traced [VStr ''q''] [(''trace'', VTrace)] tc1 w1
      = (Inr (VStr ''found''), tc1, w1\<lparr>user_calls := user_calls w1 + 1\<rparr>)" for tc1 w1
    by (simp add: py_call_def bind_error_def keyword_error_def params_of_kind_def
        search_traced_def Let_def)
  then have call: "py_call search_traced [VStr ''q''] [(''trace'', VTrace)] ?tc1 ?w1
      = (Inr (VStr ''found''), ?tc1, ?w1\<lparr>user_calls := user_calls ?w1 + 1\<rparr>)" .
  have tr: "dict_get [(''trace'', VTrace)] ''trace'' VNone = VTrace"
    by (simp add: dict_get_def)
  from trace_tool_forwards_arguments [of "[(''trace'', VTrace)]" env0 "Some ''web_search''"
      "''tool''" search_traced "[VStr ''q'']" trace0 world0,
      THEN conjunct2, THEN conjunct1, THEN spec, THEN spec, THEN spec, THEN spec, THEN spec,
      THEN spec, THEN mp, OF conjI [OF tr conjI [OF st conjI [OF call refl]]]]
  obtain tc3 w3 where res: "trace_tool env0 (Some ''web_search'') ''tool'' search_traced
        [VStr ''q''] [(''trace'', VTrace)] trace0 world0 = (Inr (VStr ''found''), tc3, w3)"
    and p: "span_type (objs tc3 0) = ''tool''"
      "name (objs tc3 0) = tool_name_of (Some ''web_search'') search_traced"
      "status (objs tc3 0) = ''OK''"
      "span_output (objs tc3 0) =
         (if VStr ''found'' = VNone then None
          else Some (take 2000 (py_str env0 (VStr ''found''))))"
      "spans tc3 = spans (fst (snd ?st))"
    by (elim exE conjE)
  have str: "py_str env0 (VStr ''found'') = ''found''" by (simp add: env0_def)
  from p have "span_type (objs tc3 0) = ''tool'' \<and> name (objs tc3 0) = ''web_search''
      \<and> status (objs tc3 0) = ''OK'' \<and> span_output (objs tc3 0) = Some ''found''
      \<and> spans tc3 = [0]"
    by (simp add: nm sp str)
  with res show ?thesis by blast
qed

text \<open>
  The claim as stated fails for a tool whose signature has no \<open>trace\<close>:
  \<^verbatim>\<open>search(query)\<close>, which returns \<^verbatim>\<open>"found"\<close> when it is called without the keyword,
  is called with it by the wrapper, and the call raises \<^verbatim>\<open>TypeError\<close>.
\<close>

theorem trace_tool_signature_counterexample:
  "fst (trace_tool env0 (Some ''web_search'') ''tool'' search [VStr ''q'']
          [(''trace'', VTrace)] trace0 world0)
     = Inl (Exc ''TypeError'' (''search() got an unexpected keyword argument ''
              @ apostrophe @ ''trace'' @ apostrophe))
   \<and> fst (py_call search [VStr ''q''] [] trace0 world0) = Inr (VStr ''found'')"
  by (simp add: trace_tool_def with_span_def tool_name_of_def start_span_def new_span_def
      end_span_def draw_uuid4_def read_utcnow_def Let_def SPAN_TYPES_def
      MAX_SPANS_PER_TRACE_def trace0_def dict_get_def py_call_def bind_error_def
      keyword_error_def params_of_kind_def search_def)

section \<open>Properties of the wrapper\<close>

text \<open>
  A read of the status checker leaves the rate tracker, the queue of the transport and the
  count of calls of user functions as they are.
\<close>

lemma fetch_status_frame:
  "user_calls (snd (fetch_status e ck agent w)) = user_calls w
   \<and> event_queue (snd (fetch_status e ck agent w)) = event_queue w
   \<and> rate_counts (snd (fetch_status e ck agent w)) = rate_counts w"
  by (simp add: fetch_status_def Let_def split: http_get.splits option.splits sum.splits)

lemma fetch_and_cache_frame:
  "user_calls (snd (fetch_and_cache e ck agent w)) = user_calls w
   \<and> event_queue (snd (fetch_and_cache e ck agent w)) = event_queue w
   \<and> rate_counts (snd (fetch_and_cache e ck agent w)) = rate_counts w"
proof -
  obtain r w1 where fs: "fetch_status e ck agent w = (r, w1)" by (metis surj_pair)
  from fetch_status_frame [of e ck agent w] fs
  have f: "user_calls w1 = user_calls w" "event_queue w1 = event_queue w"
    "rate_counts w1 = rate_counts w" by simp_all
  show ?thesis
    using f by (cases r) (auto simp: fetch_and_cache_def fs read_monotonic_def Let_def)
qed

lemma is_blocked_miss_frame:
  "user_calls (snd (is_blocked_miss e ck agent w)) = user_calls w
   \<and> event_queue (snd (is_blocked_miss e ck agent w)) = event_queue w
   \<and> rate_counts (snd (is_blocked_miss e ck agent w)) = rate_counts w"
proof -
  obtain r w1 where fc: "fetch_and_cache e ck agent w = (r, w1)" by (metis surj_pair)
  from fetch_and_cache_frame [of e ck agent w] fc
  have f: "user_calls w1 = user_calls w" "event_queue w1 = event_queue w"
    "rate_counts w1 = rate_counts w" by simp_all
  show ?thesis
    using f by (cases r) (auto simp: is_blocked_miss_def fc split: option.splits)
qed

lemma is_blocked_frame:
  "user_calls (snd (is_blocked e ck agent w)) = user_calls w
   \<and> event_queue (snd (is_blocked e ck agent w)) = event_queue w
   \<and> rate_counts (snd (is_blocked e ck agent w)) = rate_counts w"
proof (cases "status_cache w agent")
  case None
  then show ?thesis using is_blocked_miss_frame [of e ck agent w] by (simp add: is_blocked_def)
next
  case (Some ent)
  let ?w1 = "w\<lparr>mono_reads := mono_reads w + 1\<rparr>"
  from is_blocked_miss_frame [of e ck agent ?w1] Some show ?thesis
    by (simp add: is_blocked_def read_monotonic_def Let_def)
qed

text \<open>
  Claim C2. Let the decorator have a status checker, and let the checker report the agent
  blocked, with some reason, when the wrapper asks it (as it does from a fresh cache
  entry whose status is \<open>BLOCKED\<close>, and also after a fetch that finds the agent
  blocked). Then the wrapper raises \<open>AgentBlockedError\<close> with the agent id and the
  reason (\<open>Agent is blocked\<close> for an empty one), and the state it leaves is the state
  the checker left: the function was not called, and nothing was put on the queue of a
  transport or recorded by the rate tracker, whatever the function, the arguments and
  the transport are.
\<close>

theorem kill_switch_preempts:
  assumes ck: "od_status_checker d = Some ck"
    and bl: "is_blocked e ck (od_agent_id d) w = ((True, reason), w1)"
  shows "wrapper e d func args kwargs w
           = (Inl (AgentBlockedError (od_agent_id d)
                     (if py_truthy reason then reason else VStr ''Agent is blocked'')), w1)
       \<and> user_calls w1 = user_calls w
       \<and> event_queue w1 = event_queue w
       \<and> rate_counts w1 = rate_counts w"
proof -
  have "kill_switch_check e d w
          = (Some (agent_blocked_error (od_agent_id d) reason), w1)"
    by (simp add: kill_switch_check_def ck bl)
  then have r: "wrapper e d func args kwargs w
           = (Inl (AgentBlockedError (od_agent_id d)
                     (if py_truthy reason then reason else VStr ''Agent is blocked'')), w1)"
    by (simp add: wrapper_def agent_blocked_error_def)
  from is_blocked_frame [of e ck "od_agent_id d" w] bl
  have "user_calls w1 = user_calls w \<and> event_queue w1 = event_queue w
       \<and> rate_counts w1 = rate_counts w" by simp
  with r show ?thesis by simp
qed

text \<open>
  The example: the agent is cached as blocked for the reason \<open>manual\<close>.
\<close>

theorem kill_switch_preempts_witness:
  "wrapper env0 decorator0 ask_agent [VStr ''hi''] [] world_blocked
     = (Inl (AgentBlockedError ''agent-1'' (VStr ''manual'')),
        world_blocked\<lparr>mono_reads := 1\<rparr>)
   \<and> user_calls (world_blocked\<lparr>mono_reads := 1\<rparr>) = user_calls world_blocked
   \<and> event_queue (world_blocked\<lparr>mono_reads := 1\<rparr>) = event_queue world_blocked"
proof -
  have sc: "od_status_checker decorator0 = Some checker0"
    and ag: "od_agent_id decorator0 = ''agent-1''"
    by (simp_all add: decorator0_def observe_decorator_init_def)
  have bl: "is_blocked env0 checker0 (od_agent_id decorator0) world_blocked
              = ((True, VStr ''manual''), world_blocked\<lparr>mono_reads := 1\<rparr>)"
    by (simp add: ag is_blocked_def read_monotonic_def world_blocked_def world0_def env0_def)
  from kill_switch_preempts [OF sc bl, of ask_agent "[VStr ''hi'']" "[]"]
  show ?thesis by (simp add: ag)
qed









text \<open>
  Claim C1, at a function whose result carries token counts that are strings, wrapped by
  a decorator without kill switch whose transport raises on every send. The function
  returns its response; the wrapper raises \<open>TypeError\<close>. The exception comes from
  \<^verbatim>\<open>estimate_cost\<close>, which \<^verbatim>\<open>end_span\<close> calls on the root span in the \<^verbatim>\<open>finally\<close>
  block, outside of any \<^verbatim>\<open>try\<close>; it takes the place of the value that was being
  returned, and the invocation is not recorded by the rate tracker.
\<close>

theorem wrapper_raises_on_string_tokens:
  "fst (py_call usage_agent [VStr ''hi''] [] trace0 world0) = Inr usage_response
   \<and> fst (wrapper env0 decorator_plain usage_agent [VStr ''hi''] [] world0)
       = Inl (Exc ''TypeError'' ''unsupported operand type(s) for /'')
   \<and> user_calls (snd (wrapper env0 decorator_plain usage_agent [VStr ''hi''] [] world0)) = 1
   \<and> rate_counts (snd (wrapper env0 decorator_plain usage_agent [VStr ''hi''] [] world0))
        ''agent-1'' = None"
  by (simp add: wrapper_def kill_switch_check_def policy_check_def invoke_def
      new_trace_context_def start_span_def new_span_def
      read_monotonic_def read_utcnow_def draw_uuid4_def py_call_def bind_error_def
      keyword_error_def params_of_kind_def sig_parameters_def wrapper_finally_def
      extract_tokens_def extract_tokens_try_def extract_model_id_def end_span_def
      estimate_cost_def pricing_for_def bind_exn_def py_get_def dict_get_def
      SPAN_TYPES_def MAX_SPANS_PER_TRACE_def truncate_text_def truncate_max_def
      decorator_plain_def observe_decorator_init_def usage_agent_def usage_response_def
      world0_def MODEL_PRICING_def Let_def)

end
